theory Spec2Isabelle
  imports Main
begin

text \<open>
  The payment verification and witnessing core of the Basis edge services: the chain
  verifier and the payment gate of \<open>middleware/x402.ts\<close>, the mock gate of
  \<open>middleware/x402-mock.ts\<close>, the witness signers of \<open>tools/witness*.ts\<close> and the
  fetch route of \<open>index.ts\<close>. Awaited calls are run to completion one after another;
  a request is a function from the environment it finds to its answer, the environment it
  leaves and the list of its effects on the store and the ledger.
\<close>

section \<open>Strings as the gate and the verifier use them\<close>

text \<open>
  JavaScript strings are modelled as \<open>string\<close>; the identifiers, addresses and keys the
  code compares are ASCII, so \<open>length\<close> is the source's \<open>.length\<close> and
  \<open>toLowerCase\<close> only has to move the letters \<open>A\<close> to \<open>Z\<close>.
\<close>

definition toLowerChar :: "char \<Rightarrow> char" where
  "toLowerChar c =
     (if 65 \<le> (of_char c :: nat) \<and> (of_char c :: nat) \<le> 90
      then Char (digit0 c) (digit1 c) (digit2 c) (digit3 c) (digit4 c) True (digit6 c) (digit7 c)
      else c)"

definition toLowerCase :: "string \<Rightarrow> string" where
  "toLowerCase s = map toLowerChar s"

definition startsWith :: "string \<Rightarrow> string \<Rightarrow> bool" where
  "startsWith s p = (take (length p) s = p)"

fun str_includes :: "string \<Rightarrow> string \<Rightarrow> bool" where
  "str_includes [] sub = (sub = [])"
| "str_includes (c # cs) sub = (take (length sub) (c # cs) = sub \<or> str_includes cs sub)"

definition isHexDigit :: "char \<Rightarrow> bool" where
  "isHexDigit c =
     (let n = (of_char c :: nat) in
        (48 \<le> n \<and> n \<le> 57) \<or> (65 \<le> n \<and> n \<le> 70) \<or> (97 \<le> n \<and> n \<le> 102))"

text \<open>The regular expression \<open>/^0x[0-9a-fA-F]{64}$/\<close> (witness.ts, and the spec's credential shape).\<close>

definition hexPattern :: "string \<Rightarrow> bool" where
  "hexPattern s = (length s = 66 \<and> take 2 s = ''0x'' \<and> list_all isHexDigit (drop 2 s))"

text \<open>JavaScript's \<open>a || b\<close> on an optional string: \<open>undefined\<close> and \<open>""\<close> are both falsy.\<close>

definition truthy :: "string option \<Rightarrow> bool" where
  "truthy v = (case v of None \<Rightarrow> False | Some s \<Rightarrow> s \<noteq> [])"

definition orElse :: "string option \<Rightarrow> string \<Rightarrow> string" where
  "orElse v d = (case v of None \<Rightarrow> d | Some s \<Rightarrow> if s = [] then d else s)"


section \<open>The library the code calls\<close>

text \<open>
  \<open>viem\<close> is an external package: its functions are parameters of the model. A call that
  throws is \<open>None\<close> or \<open>Inl\<close>. \<open>getTransactionReceipt\<close> is the only network call of the
  verifier; \<open>decodeEventLog\<close> is called with the transfer-event ABI, on a log's data and
  topics.
\<close>

record rpc_error =
  err_message :: "string option"
  err_name :: "string option"

record log =
  address :: string
  data :: string
  topics :: "string list"

record receipt =
  status :: string
  logs :: "log list option"

record decoded_event =
  eventName :: string
  arg_from :: string
  arg_to :: string
  arg_value :: nat

record account =
  acct_address :: string
  acct_sign :: "string \<Rightarrow> string"

record viem =
  getTransactionReceipt :: "string \<Rightarrow> rpc_error + receipt"
  decodeEventLog :: "string \<Rightarrow> string list \<Rightarrow> decoded_event option"
  privateKeyToAccount :: "string \<Rightarrow> account option"
  keccak256 :: "string \<Rightarrow> string"
  toHex :: "string \<Rightarrow> string"

text \<open>What a request does to the outside world, in order.\<close>

datatype effect =
    KvGet string
  | KvPut string string nat
  | KvDelete string
  | GetTransactionReceipt string


section \<open>Chain verifier (middleware/x402.ts)\<close>

definition USDC_BASE_ADDRESS :: string where
  "USDC_BASE_ADDRESS = ''0x833589fCD6eDb6E08f4c7C32D4f71b54bdA02913''"

definition MIN_PAYMENT_AMOUNT :: nat where
  "MIN_PAYMENT_AMOUNT = 1000"

definition REPLAY_TTL :: nat where
  "REPLAY_TTL = 86400"

record transfer =
  t_from :: string
  t_to :: string
  t_value :: nat

definition decodeUSDCLog :: "viem \<Rightarrow> log \<Rightarrow> transfer option" where
  "decodeUSDCLog lib l =
     (if toLowerCase (address l) \<noteq> toLowerCase USDC_BASE_ADDRESS then None
      else case decodeEventLog lib (data l) (topics l) of
             None \<Rightarrow> None
           | Some decoded \<Rightarrow>
               if eventName decoded \<noteq> ''Transfer'' then None
               else Some \<lparr>t_from = arg_from decoded, t_to = arg_to decoded,
                          t_value = arg_value decoded\<rparr>)"

record verification =
  valid :: bool
  walletAddress :: "string option"
  error :: "string option"

definition isTestHash :: "string \<Rightarrow> bool" where
  "isTestHash txHash =
     (toLowerCase (take 18 txHash) = ''0x1234567890abcdef''
      \<or> toLowerCase (take 18 txHash) = ''0x0000000000000000''
      \<or> toLowerCase (take 18 txHash) = ''0xffffffffffffffff''
      \<or> txHash = ''0x1234567890abcdef1234567890abcdef1234567890abcdef1234567890abcdef'')"

text \<open>The \<open>for\<close> loop over the receipt's logs: the first log passing all checks wins.\<close>

fun scanLogs :: "viem \<Rightarrow> string \<Rightarrow> log list \<Rightarrow> transfer option" where
  "scanLogs lib expectedRecipient [] = None"
| "scanLogs lib expectedRecipient (l # ls) =
     (case decodeUSDCLog lib l of
        None \<Rightarrow> scanLogs lib expectedRecipient ls
      | Some decoded \<Rightarrow>
          if toLowerCase (t_to decoded) = toLowerCase expectedRecipient
          then (if MIN_PAYMENT_AMOUNT \<le> t_value decoded then Some decoded
                else scanLogs lib expectedRecipient ls)
          else scanLogs lib expectedRecipient ls)"

text \<open>The \<open>catch\<close> block of \<open>verifyPayment\<close>.\<close>

definition verifyPayment_catch :: "string \<Rightarrow> rpc_error \<Rightarrow> verification" where
  "verifyPayment_catch txHash e =
     (let errorMessage = orElse (err_message e) [] in
      if str_includes errorMessage ''could not be found''
         \<or> str_includes errorMessage ''Transaction receipt''
         \<or> str_includes errorMessage ''not found''
         \<or> err_name e = Some ''TransactionReceiptNotFoundError''
      then \<lparr>valid = False, walletAddress = None,
            error = Some (''Transaction receipt with hash '' @ [CHR 0x22] @ txHash @ [CHR 0x22]
              @ '' could not be found. The transaction may not be processed on a block yet, or the hash may be invalid. Please ensure the transaction has been confirmed on Base Mainnet.'')\<rparr>
      else if str_includes errorMessage ''fetch''
         \<or> str_includes errorMessage ''network''
         \<or> str_includes errorMessage ''timeout''
         \<or> str_includes errorMessage ''ECONNREFUSED''
      then \<lparr>valid = False, walletAddress = None,
            error = Some ''Failed to connect to Base Mainnet RPC. Please try again later.''\<rparr>
      else \<lparr>valid = False, walletAddress = None,
            error = Some (orElse (Some errorMessage) ''Failed to verify transaction on blockchain'')\<rparr>)"

definition verifyPayment :: "viem \<Rightarrow> string \<Rightarrow> string \<Rightarrow> verification \<times> effect list" where
  "verifyPayment lib txHash expectedRecipient =
     (if isTestHash txHash
      then (\<lparr>valid = False, walletAddress = None,
             error = Some ''Invalid transaction hash: This appears to be a test/placeholder hash. Please use a real transaction hash from Base Mainnet.''\<rparr>,
            [])
      else
        (case getTransactionReceipt lib txHash of
           Inl e \<Rightarrow> verifyPayment_catch txHash e
         | Inr rc \<Rightarrow>
             if status rc \<noteq> ''success''
             then \<lparr>valid = False, walletAddress = None,
                   error = Some ''Transaction failed or is pending''\<rparr>
             else
               (case logs rc of
                  None \<Rightarrow> \<lparr>valid = False, walletAddress = None,
                            error = Some ''Transaction contains no logs''\<rparr>
                | Some ls \<Rightarrow>
                    if ls = []
                    then \<lparr>valid = False, walletAddress = None,
                          error = Some ''Transaction contains no logs''\<rparr>
                    else
                      (case scanLogs lib expectedRecipient ls of
                         None \<Rightarrow> \<lparr>valid = False, walletAddress = None,
                                   error = Some ''No valid USDC transfer found to recipient address with sufficient amount''\<rparr>
                       | Some validTransfer \<Rightarrow>
                           \<lparr>valid = True, walletAddress = Some (t_from validTransfer),
                            error = None\<rparr>)),
         [GetTransactionReceipt txHash]))"

text \<open>
  The decodable token transfers of a receipt that go to a recipient, in log order: what
  the loop looks at before it compares amounts.
\<close>

definition transfers_to :: "viem \<Rightarrow> string \<Rightarrow> log list \<Rightarrow> transfer list" where
  "transfers_to lib expectedRecipient ls =
     filter (\<lambda>t. toLowerCase (t_to t) = toLowerCase expectedRecipient)
       (List.map_filter (decodeUSDCLog lib) ls)"


section \<open>Replay store\<close>

text \<open>
  Modelled from the spec: the Replay Store is the platform's key-value namespace, which is
  not code of the repository; the spec gives its interface (\<open>get(key)\<close> returning a value
  or absent, \<open>put(key, value, ttlSeconds)\<close>, \<open>delete(key)\<close>) and per-key expiration.
  A record written with a time to live at clock \<open>t\<close> is readable while the clock is below
  \<open>t + ttl\<close>. Time is a count of seconds and passes only between requests.
\<close>

record KVNamespace =
  entries :: "string \<Rightarrow> (string \<times> nat) option"
  clock :: nat

definition kv_get :: "KVNamespace \<Rightarrow> string \<Rightarrow> string option" where
  "kv_get kv key =
     (case entries kv key of
        None \<Rightarrow> None
      | Some (v, expires) \<Rightarrow> if clock kv < expires then Some v else None)"

definition kv_put :: "KVNamespace \<Rightarrow> string \<Rightarrow> string \<Rightarrow> nat \<Rightarrow> KVNamespace" where
  "kv_put kv key v expirationTtl = kv\<lparr>entries := (entries kv)(key \<mapsto> (v, clock kv + expirationTtl))\<rparr>"

definition kv_delete :: "KVNamespace \<Rightarrow> string \<Rightarrow> KVNamespace" where
  "kv_delete kv key = kv\<lparr>entries := (entries kv)(key := None)\<rparr>"

text \<open>
  Each awaited store call of the gate may throw; a call that throws leaves the store as it
  was. One flag per call site of \<open>x402\<close>, in source order.
\<close>

record kv_faults =
  get_throws :: bool
  put_pending_throws :: bool
  delete_throws :: bool
  put_used_throws :: bool


section \<open>Payment gate (middleware/x402.ts)\<close>

record env =
  BASIS_WALLET_ADDRESS :: "string option"
  BASIS_KV :: "KVNamespace option"
  BASIS_PRIVATE_KEY :: "string option"

record payment_context =
  chain :: string
  network :: string
  currency :: string
  amount :: string
  recipient :: string

record error_body =
  body_error :: string
  body_message :: string
  body_payment_context :: "payment_context option"

record WitnessProof =
  witness_id :: string
  timestamp :: string
  signing_method :: string
  signer :: string
  hash :: string
  signature :: string

record packet_data =
  data_url :: string
  content_preview :: string
  full_content_length :: nat

datatype response =
    Json nat error_body
  | FetchError nat "string option"
  | ValidationError
  | BasisPacket packet_data WitnessProof

record basis_context =
  wallet_address :: "string option"
  tx_hash :: "string option"

text \<open>
  A middleware either answers the request itself or awaits \<open>next()\<close>; \<open>CallNext\<close>
  carries the context variables the next handler finds. The production gate ends with two
  assignments, to \<open>wallet_address\<close> and \<open>tx_hash\<close> of the object that \<open>c.var\<close>
  hands out. That object is not the context's store of variables, which only \<open>c.set\<close>
  writes and which the gate never calls: the assignments are lost, and the handler and the
  request log find both variables unset, as after the mock gate.
\<close>

datatype gate_result = Reply response | CallNext basis_context

definition PENDING_TTL :: nat where
  "PENDING_TTL = 300"

definition payment_required :: "env \<Rightarrow> response" where
  "payment_required e =
     Json 402 \<lparr>body_error = ''Payment Required'',
               body_message = ''You must attach a valid x402 transaction hash to the Authorization header.'',
               body_payment_context = Some \<lparr>chain = ''base'', network = ''mainnet'',
                 currency = ''USDC'', amount = ''0.001'',
                 recipient = orElse (BASIS_WALLET_ADDRESS e) ''0x_SETUP_YOUR_WALLET_SECRET''\<rparr>\<rparr>"

definition x402 ::
  "viem \<Rightarrow> kv_faults \<Rightarrow> env \<Rightarrow> string option \<Rightarrow> gate_result \<times> env \<times> effect list" where
  "x402 lib faults e authHeader =
     (if \<not> truthy authHeader \<or> \<not> startsWith (orElse authHeader []) ''0x''
         \<or> length (orElse authHeader []) \<noteq> 66
      then (Reply (payment_required e), e, [])
      else
        let txHash = orElse authHeader [] in
        if \<not> truthy (BASIS_WALLET_ADDRESS e)
        then (Reply (Json 500 \<lparr>body_error = ''Configuration Error'',
                body_message = ''BASIS_WALLET_ADDRESS not configured'',
                body_payment_context = None\<rparr>), e, [])
        else
          let basisWalletAddress = orElse (BASIS_WALLET_ADDRESS e) [] in
          (case BASIS_KV e of
             None \<Rightarrow>
               (Reply (Json 500 \<lparr>body_error = ''Configuration Error'',
                  body_message = ''BASIS_KV not configured'',
                  body_payment_context = None\<rparr>), e, [])
           | Some kv \<Rightarrow>
               if get_throws faults
               then (Reply (Json 500 \<lparr>body_error = ''Internal Server Error'',
                       body_message = ''Failed to process payment verification'',
                       body_payment_context = None\<rparr>), e, [KvGet txHash])
               else if kv_get kv txHash \<noteq> None
               then (Reply (Json 402 \<lparr>body_error = ''Payment Reuse Detected'',
                       body_message = ''This transaction hash has already been used. Each payment can only be used once.'',
                       body_payment_context = None\<rparr>), e, [KvGet txHash])
               else if put_pending_throws faults
               then (Reply (Json 500 \<lparr>body_error = ''Internal Server Error'',
                       body_message = ''Failed to process payment verification'',
                       body_payment_context = None\<rparr>), e,
                     [KvGet txHash, KvPut txHash ''pending'' PENDING_TTL])
               else
                 let kv1 = kv_put kv txHash ''pending'' PENDING_TTL;
                     verification = fst (verifyPayment lib txHash basisWalletAddress);
                     fx = [KvGet txHash, KvPut txHash ''pending'' PENDING_TTL]
                          @ snd (verifyPayment lib txHash basisWalletAddress)
                 in
                 if \<not> valid verification
                 then
                   (Reply (Json 402 \<lparr>body_error = ''Payment Verification Failed'',
                      body_message = orElse (error verification)
                        ''Transaction does not meet payment requirements'',
                      body_payment_context = Some \<lparr>chain = ''base'', network = ''mainnet'',
                        currency = ''USDC'', amount = ''0.001'',
                        recipient = basisWalletAddress\<rparr>\<rparr>),
                    e\<lparr>BASIS_KV := Some (if delete_throws faults then kv1 else kv_delete kv1 txHash)\<rparr>,
                    fx @ [KvDelete txHash])
                 else if put_used_throws faults
                 then
                   (Reply (Json 500 \<lparr>body_error = ''Internal Server Error'',
                      body_message = ''Payment verified but failed to record usage. Please contact support.'',
                      body_payment_context = None\<rparr>),
                    e\<lparr>BASIS_KV := Some kv1\<rparr>,
                    fx @ [KvPut txHash ''used'' REPLAY_TTL])
                 else
                   (CallNext \<lparr>wallet_address = None, tx_hash = None\<rparr>,
                    e\<lparr>BASIS_KV := Some (kv_put kv1 txHash ''used'' REPLAY_TTL)\<rparr>,
                    fx @ [KvPut txHash ''used'' REPLAY_TTL])))"


section \<open>Mock gate (middleware/x402-mock.ts) and the entry points\<close>

definition x402_mock :: "env \<Rightarrow> string option \<Rightarrow> gate_result" where
  "x402_mock e authHeader =
     (let isValidPayment = (truthy authHeader \<and> startsWith (orElse authHeader []) ''0x''
                            \<and> length (orElse authHeader []) = 66) in
      if \<not> isValidPayment then Reply (payment_required e)
      else CallNext \<lparr>wallet_address = None, tx_hash = None\<rparr>)"

text \<open>
  The entry points and the module each imports \<open>x402\<close> from: index.ts takes
  \<open>./middleware/x402\<close>; index-scan.ts, index-cache.ts, index-calc.ts, index-hash.ts and
  index-badge.ts take \<open>./middleware/x402-mock\<close>.
\<close>

datatype entry_point = Fetch | Scan | Cache | Calc | Hash | Badge

datatype middleware = Production_gate | Mock_gate

fun installed :: "entry_point \<Rightarrow> middleware" where
  "installed Fetch = Production_gate"
| "installed Scan = Mock_gate"
| "installed Cache = Mock_gate"
| "installed Calc = Mock_gate"
| "installed Hash = Mock_gate"
| "installed Badge = Mock_gate"

fun run_gate ::
  "middleware \<Rightarrow> viem \<Rightarrow> kv_faults \<Rightarrow> env \<Rightarrow> string option \<Rightarrow> gate_result \<times> env \<times> effect list" where
  "run_gate Production_gate lib faults e authHeader = x402 lib faults e authHeader"
| "run_gate Mock_gate lib faults e authHeader = (x402_mock e authHeader, e, [])"

text \<open>Requests served one after another by the gate of an entry point.\<close>

fun serve_all ::
  "entry_point \<Rightarrow> viem \<Rightarrow> kv_faults \<Rightarrow> env \<Rightarrow> string option list
     \<Rightarrow> gate_result list \<times> env \<times> effect list" where
  "serve_all ep lib faults e [] = ([], e, [])"
| "serve_all ep lib faults e (h # hs) =
     (case run_gate (installed ep) lib faults e h of
        (r, e1, fx) \<Rightarrow>
          (case serve_all ep lib faults e1 hs of
             (rs, e2, fx2) \<Rightarrow> (r # rs, e2, fx @ fx2)))"



section \<open>Witness signers (tools/witness*.ts)\<close>

text \<open>
  Every signer throws or returns a certificate. \<open>KeyMissing\<close>, \<open>KeyBadLength\<close> and
  \<open>KeyBadCharacters\<close> are the three \<open>throw new Error("CRITICAL: BASIS_PRIVATE_KEY ...")\<close>
  of the source; \<open>AccountError\<close> is the library's \<open>privateKeyToAccount\<close> throwing. The
  argument \<open>now\<close> is the reading of \<open>new Date().toISOString()\<close>; numbers that a template
  interpolates (score, result) and the JSON text of the inputs arrive already rendered as
  strings.
\<close>

datatype sign_error = KeyMissing | KeyBadLength nat | KeyBadCharacters | AccountError

text \<open>
  The normalisation block of the two validating signers: \<open>0x\<close> is put in front of a key
  that does not start with it.
\<close>

definition normalizeKey :: "string \<Rightarrow> string" where
  "normalizeKey privateKey = (if startsWith privateKey ''0x'' then privateKey else ''0x'' @ privateKey)"

text \<open>The three errors the signers throw themselves, as opposed to the library's.\<close>

definition is_configuration_error :: "sign_error + WitnessProof \<Rightarrow> bool" where
  "is_configuration_error r =
     (case r of
        Inl KeyMissing \<Rightarrow> True
      | Inl (KeyBadLength n) \<Rightarrow> True
      | Inl KeyBadCharacters \<Rightarrow> True
      | Inl AccountError \<Rightarrow> False
      | Inr certificate \<Rightarrow> False)"

text \<open>tools/witness.ts of the fetch service: the key is normalised and validated.\<close>

definition signContent ::
  "viem \<Rightarrow> string \<Rightarrow> string \<Rightarrow> string \<Rightarrow> string option \<Rightarrow> sign_error + WitnessProof" where
  "signContent lib now content url privateKey =
     (case privateKey of
        None \<Rightarrow> Inl KeyMissing
      | Some pk \<Rightarrow>
          if pk = [] then Inl KeyMissing
          else
            let normalizedKey = normalizeKey pk in
            if length normalizedKey \<noteq> 66 then Inl (KeyBadLength (length normalizedKey))
            else if \<not> hexPattern normalizedKey then Inl KeyBadCharacters
            else
              (case privateKeyToAccount lib normalizedKey of
                 None \<Rightarrow> Inl AccountError
               | Some account \<Rightarrow>
                   let payload = url @ '':'' @ now @ '':'' @ content;
                       contentHash = keccak256 lib (toHex lib payload)
                   in Inr \<lparr>witness_id = ''basis-edge-node-01'', timestamp = now,
                           signing_method = ''ecdsa-secp256k1'', signer = acct_address account,
                           hash = contentHash, signature = acct_sign account contentHash\<rparr>))"

text \<open>The signer of risk assessments validates the key in the same way.\<close>

definition signRiskAssessment ::
  "viem \<Rightarrow> string \<Rightarrow> string \<Rightarrow> string \<Rightarrow> string option \<Rightarrow> sign_error + WitnessProof" where
  "signRiskAssessment lib target score assessed_at privateKey =
     (case privateKey of
        None \<Rightarrow> Inl KeyMissing
      | Some pk \<Rightarrow>
          if pk = [] then Inl KeyMissing
          else
            let normalizedKey = normalizeKey pk in
            if length normalizedKey \<noteq> 66 then Inl (KeyBadLength (length normalizedKey))
            else if \<not> hexPattern normalizedKey then Inl KeyBadCharacters
            else
              (case privateKeyToAccount lib normalizedKey of
                 None \<Rightarrow> Inl AccountError
               | Some account \<Rightarrow>
                   let payload = ''TARGET:'' @ target @ '':SCORE:'' @ score @ '':TIME:'' @ assessed_at;
                       contentHash = keccak256 lib (toHex lib payload)
                   in Inr \<lparr>witness_id = ''basis-signal-node-01'', timestamp = assessed_at,
                           signing_method = ''ecdsa-secp256k1'', signer = acct_address account,
                           hash = contentHash, signature = acct_sign account contentHash\<rparr>))"

text \<open>
  The remaining signers check only that the key is present and hand it to the library
  as it is. \<open>signContent_unvalidated\<close> is the second \<open>signContent\<close> of the sources (the
  copy without the format checks).
\<close>

definition signContent_unvalidated ::
  "viem \<Rightarrow> string \<Rightarrow> string \<Rightarrow> string \<Rightarrow> string option \<Rightarrow> sign_error + WitnessProof" where
  "signContent_unvalidated lib now content url privateKey =
     (case privateKey of
        None \<Rightarrow> Inl KeyMissing
      | Some pk \<Rightarrow>
          if pk = [] then Inl KeyMissing
          else
            (case privateKeyToAccount lib pk of
               None \<Rightarrow> Inl AccountError
             | Some account \<Rightarrow>
                 let payload = url @ '':'' @ now @ '':'' @ content;
                     contentHash = keccak256 lib (toHex lib payload)
                 in Inr \<lparr>witness_id = ''basis-edge-node-01'', timestamp = now,
                         signing_method = ''ecdsa-secp256k1'', signer = acct_address account,
                         hash = contentHash, signature = acct_sign account contentHash\<rparr>))"

definition signProofOfCustody ::
  "viem \<Rightarrow> string \<Rightarrow> string \<Rightarrow> string \<Rightarrow> string option \<Rightarrow> sign_error + WitnessProof" where
  "signProofOfCustody lib now key val privateKey =
     (case privateKey of
        None \<Rightarrow> Inl KeyMissing
      | Some pk \<Rightarrow>
          if pk = [] then Inl KeyMissing
          else
            (case privateKeyToAccount lib pk of
               None \<Rightarrow> Inl AccountError
             | Some account \<Rightarrow>
                 let payload = ''I hold this data as of '' @ now @ ''. Key: '' @ key @ '', Value: '' @ val;
                     contentHash = keccak256 lib (toHex lib payload)
                 in Inr \<lparr>witness_id = ''basis-cache-node-01'', timestamp = now,
                         signing_method = ''ecdsa-secp256k1'', signer = acct_address account,
                         hash = contentHash, signature = acct_sign account contentHash\<rparr>))"

definition signDataIntegrity ::
  "viem \<Rightarrow> string \<Rightarrow> string \<Rightarrow> string \<Rightarrow> string option \<Rightarrow> sign_error + WitnessProof" where
  "signDataIntegrity lib now key val privateKey =
     (case privateKey of
        None \<Rightarrow> Inl KeyMissing
      | Some pk \<Rightarrow>
          if pk = [] then Inl KeyMissing
          else
            (case privateKeyToAccount lib pk of
               None \<Rightarrow> Inl AccountError
             | Some account \<Rightarrow>
                 let payload = key @ '':'' @ val @ '':'' @ now;
                     contentHash = keccak256 lib (toHex lib payload)
                 in Inr \<lparr>witness_id = ''basis-cache-node-01'', timestamp = now,
                         signing_method = ''ecdsa-secp256k1'', signer = acct_address account,
                         hash = contentHash, signature = acct_sign account contentHash\<rparr>))"

definition signAuditTrail ::
  "viem \<Rightarrow> string \<Rightarrow> string \<Rightarrow> string \<Rightarrow> string \<Rightarrow> string option \<Rightarrow> sign_error + WitnessProof" where
  "signAuditTrail lib now formulaName jsonInputs result privateKey =
     (case privateKey of
        None \<Rightarrow> Inl KeyMissing
      | Some pk \<Rightarrow>
          if pk = [] then Inl KeyMissing
          else
            (case privateKeyToAccount lib pk of
               None \<Rightarrow> Inl AccountError
             | Some account \<Rightarrow>
                 let payload = ''FORMULA:'' @ formulaName @ '':INPUTS:'' @ jsonInputs @ '':RESULT:'' @ result;
                     contentHash = keccak256 lib (toHex lib payload)
                 in Inr \<lparr>witness_id = ''basis-calc-node-01'', timestamp = now,
                         signing_method = ''ecdsa-secp256k1'', signer = acct_address account,
                         hash = contentHash, signature = acct_sign account contentHash\<rparr>))"

definition signBadge ::
  "viem \<Rightarrow> string \<Rightarrow> string \<Rightarrow> string \<Rightarrow> string \<Rightarrow> string option \<Rightarrow> sign_error + WitnessProof" where
  "signBadge lib now wallet badge_status sessionId privateKey =
     (case privateKey of
        None \<Rightarrow> Inl KeyMissing
      | Some pk \<Rightarrow>
          if pk = [] then Inl KeyMissing
          else
            (case privateKeyToAccount lib pk of
               None \<Rightarrow> Inl AccountError
             | Some account \<Rightarrow>
                 let payload = ''WALLET:'' @ wallet @ '':STATUS:'' @ badge_status @ '':SESSION:'' @ sessionId;
                     contentHash = keccak256 lib (toHex lib payload)
                 in Inr \<lparr>witness_id = ''basis-badge-node-01'', timestamp = now,
                         signing_method = ''ecdsa-secp256k1'', signer = acct_address account,
                         hash = contentHash, signature = acct_sign account contentHash\<rparr>))"

definition signTimeline ::
  "viem \<Rightarrow> string \<Rightarrow> string \<Rightarrow> string \<Rightarrow> string \<Rightarrow> string option \<Rightarrow> sign_error + WitnessProof" where
  "signTimeline lib now eventHash event_time nonce privateKey =
     (case privateKey of
        None \<Rightarrow> Inl KeyMissing
      | Some pk \<Rightarrow>
          if pk = [] then Inl KeyMissing
          else
            (case privateKeyToAccount lib pk of
               None \<Rightarrow> Inl AccountError
             | Some account \<Rightarrow>
                 let payload = ''EVENT:'' @ eventHash @ '':TIME:'' @ event_time @ '':NONCE:'' @ nonce;
                     contentHash = keccak256 lib (toHex lib payload)
                 in Inr \<lparr>witness_id = ''basis-hash-node-01'', timestamp = now,
                         signing_method = ''ecdsa-secp256k1'', signer = acct_address account,
                         hash = contentHash, signature = acct_sign account contentHash\<rparr>))"

definition signClassification ::
  "viem \<Rightarrow> string \<Rightarrow> string \<Rightarrow> string \<Rightarrow> string \<Rightarrow> string option \<Rightarrow> sign_error + WitnessProof" where
  "signClassification lib now imageHash label score privateKey =
     (case privateKey of
        None \<Rightarrow> Inl KeyMissing
      | Some pk \<Rightarrow>
          if pk = [] then Inl KeyMissing
          else
            (case privateKeyToAccount lib pk of
               None \<Rightarrow> Inl AccountError
             | Some account \<Rightarrow>
                 let payload = ''IMAGE_HASH:'' @ imageHash @ '':TOP_RESULT:'' @ label @ '':CONFIDENCE:'' @ score;
                     contentHash = keccak256 lib (toHex lib payload)
                 in Inr \<lparr>witness_id = ''basis-scan-node-01'', timestamp = now,
                         signing_method = ''ecdsa-secp256k1'', signer = acct_address account,
                         hash = contentHash, signature = acct_sign account contentHash\<rparr>))"


section \<open>The fetch entry point (index.ts, POST /verify_url)\<close>

text \<open>
  \<open>performFetch\<close> is the action handler, a parameter here. The route is
  \<open>x402\<close>, then the body validator, then the handler; \<open>json_url\<close> is the validated
  \<open>args.url\<close>, \<open>None\<close> when the body does not fit the schema. The packet's meta block
  (a random id, latencies) and the background logging to the request log are left out:
  neither reads nor writes the replay store.
\<close>

record fetch_result =
  fr_status :: nat
  fr_content :: "string option"
  fr_error :: "string option"

record request =
  authorization :: "string option"
  json_url :: "string option"

definition verify_url_handler ::
  "viem \<Rightarrow> (string \<Rightarrow> fetch_result) \<Rightarrow> string \<Rightarrow> env \<Rightarrow> string \<Rightarrow> response" where
  "verify_url_handler lib performFetch now e url =
     (let fetchResult = performFetch url in
      if fr_status fetchResult \<noteq> 200 \<or> \<not> truthy (fr_content fetchResult)
      then FetchError (fr_status fetchResult) (fr_error fetchResult)
      else if \<not> truthy (BASIS_PRIVATE_KEY e)
      then Json 500 \<lparr>body_error = ''Configuration Error'',
             body_message = ''BASIS_PRIVATE_KEY not configured. Cannot create witness proof.'',
             body_payment_context = None\<rparr>
      else
        (case signContent lib now (orElse (fr_content fetchResult) []) url (BASIS_PRIVATE_KEY e) of
           Inl thrown \<Rightarrow>
             Json 500 \<lparr>body_error = ''Internal Server Error'',
               body_message = ''An unexpected error occurred while processing your request'',
               body_payment_context = None\<rparr>
         | Inr certificate \<Rightarrow>
             BasisPacket
               \<lparr>data_url = url,
                content_preview = take 100 (orElse (fr_content fetchResult) []) @ ''...'',
                full_content_length = length (orElse (fr_content fetchResult) [])\<rparr>
               certificate))"

definition verify_url ::
  "viem \<Rightarrow> (string \<Rightarrow> fetch_result) \<Rightarrow> string \<Rightarrow> kv_faults \<Rightarrow> env \<Rightarrow> request
     \<Rightarrow> response \<times> env \<times> effect list" where
  "verify_url lib performFetch now faults e req =
     (case x402 lib faults e (authorization req) of
        (Reply r, e1, fx) \<Rightarrow> (r, e1, fx)
      | (CallNext ctx, e1, fx) \<Rightarrow>
          (case json_url req of
             None \<Rightarrow> (ValidationError, e1, fx)
           | Some url \<Rightarrow> (verify_url_handler lib performFetch now e1 url, e1, fx)))"


section \<open>Histories of the replay store\<close>

text \<open>
  The store changes when the production gate serves a request (with any header, any
  ledger answer and any store fault) and when time passes.
\<close>

datatype event = Request viem kv_faults "string option" | Elapse nat

fun apply_event :: "env \<Rightarrow> event \<Rightarrow> env" where
  "apply_event e (Request lib faults authHeader) = fst (snd (x402 lib faults e authHeader))"
| "apply_event e (Elapse seconds) =
     e\<lparr>BASIS_KV := map_option (\<lambda>kv. kv\<lparr>clock := clock kv + seconds\<rparr>) (BASIS_KV e)\<rparr>"

definition run :: "env \<Rightarrow> event list \<Rightarrow> env" where
  "run e evs = foldl apply_event e evs"



section \<open>Stand-ins for the library, for concrete runs\<close>

text \<open>
  The theorems below hold for every library. To run the model on concrete requests the
  parameters need values: a ledger that knows a fixed list of receipts and throws
  \<open>TransactionReceiptNotFoundError\<close> for any other identifier, a decoder for the transfer
  event (topics: the event signature, the padded source, the padded destination; data:
  the amount as a 32-byte hexadecimal number), and an account derivation that accepts
  exactly the well-formed keys.
\<close>

definition hexDigitValue :: "char \<Rightarrow> nat" where
  "hexDigitValue c =
     (let n = (of_char c :: nat) in
      if 48 \<le> n \<and> n \<le> 57 then n - 48
      else if 97 \<le> n \<and> n \<le> 102 then n - 87
      else n - 55)"

definition hexToNat :: "string \<Rightarrow> nat" where
  "hexToNat s = foldl (\<lambda>acc c. 16 * acc + hexDigitValue c) 0 s"

definition TRANSFER_TOPIC :: string where
  "TRANSFER_TOPIC = ''0xddf252ad1be2c89b69c2b068fc378daa952ba7f163c4a11628f55a4df523b3ef''"

definition stub_decodeEventLog :: "string \<Rightarrow> string list \<Rightarrow> decoded_event option" where
  "stub_decodeEventLog d ts =
     (case ts of
        [sig, src, dst] \<Rightarrow>
          if sig = TRANSFER_TOPIC \<and> hexPattern src \<and> hexPattern dst \<and> hexPattern d
          then Some \<lparr>eventName = ''Transfer'', arg_from = ''0x'' @ drop 26 src,
                     arg_to = ''0x'' @ drop 26 dst, arg_value = hexToNat (drop 2 d)\<rparr>
          else None
      | _ \<Rightarrow> None)"

definition stub_getTransactionReceipt :: "(string \<times> receipt) list \<Rightarrow> string \<Rightarrow> rpc_error + receipt" where
  "stub_getTransactionReceipt known txHash =
     (case map_of known txHash of
        Some rc \<Rightarrow> Inr rc
      | None \<Rightarrow> Inl \<lparr>err_message = Some ''Transaction receipt could not be found'',
                      err_name = Some ''TransactionReceiptNotFoundError''\<rparr>)"

definition stub_privateKeyToAccount :: "string \<Rightarrow> account option" where
  "stub_privateKeyToAccount k =
     (if hexPattern k
      then Some \<lparr>acct_address = ''0x'' @ take 40 (drop 2 k), acct_sign = (\<lambda>h. h @ k)\<rparr>
      else None)"

definition stub_viem :: "(string \<times> receipt) list \<Rightarrow> viem" where
  "stub_viem known =
     \<lparr>getTransactionReceipt = stub_getTransactionReceipt known,
      decodeEventLog = stub_decodeEventLog,
      privateKeyToAccount = stub_privateKeyToAccount,
      keccak256 = (\<lambda>s. s),
      toHex = (\<lambda>s. s)\<rparr>"

text \<open>A recipient, a payer, two paid identifiers and the logs of their receipts.\<close>

definition shop :: string where
  "shop = ''0x742d35Cc6634C0532925a3b844Bc454e4438f44e''"

definition payer_topic :: string where
  "payer_topic = ''0x0000000000000000000000005aaeb6053f3e94c9b9a09f33669435e7ef1beaed''"

definition shop_topic :: string where
  "shop_topic = ''0x000000000000000000000000742d35cc6634c0532925a3b844bc454e4438f44e''"

definition log_999 :: log where
  "log_999 = \<lparr>address = USDC_BASE_ADDRESS,
     data = ''0x00000000000000000000000000000000000000000000000000000000000003e7'',
     topics = [TRANSFER_TOPIC, payer_topic, shop_topic]\<rparr>"

definition log_1000 :: log where
  "log_1000 = \<lparr>address = USDC_BASE_ADDRESS,
     data = ''0x00000000000000000000000000000000000000000000000000000000000003e8'',
     topics = [TRANSFER_TOPIC, payer_topic, shop_topic]\<rparr>"

definition tx_a :: string where
  "tx_a = ''0xa1b2c3d4e5f60718293a4b5c6d7e8f90a1b2c3d4e5f60718293a4b5c6d7e8f90''"

definition tx_b :: string where
  "tx_b = ''0xb2c3d4e5f60718293a4b5c6d7e8f90a1b2c3d4e5f60718293a4b5c6d7e8f90a1''"

definition tx_c :: string where
  "tx_c = ''0xc3d4e5f60718293a4b5c6d7e8f90a1b2c3d4e5f60718293a4b5c6d7e8f90a1b2''"

definition known_receipts :: "(string \<times> receipt) list" where
  "known_receipts =
     [(tx_a, \<lparr>status = ''success'', logs = Some [log_1000]\<rparr>),
      (tx_b, \<lparr>status = ''success'', logs = Some [log_999]\<rparr>),
      (tx_c, \<lparr>status = ''success'', logs = Some [log_999, log_1000]\<rparr>)]"

definition no_faults :: kv_faults where
  "no_faults = \<lparr>get_throws = False, put_pending_throws = False, delete_throws = False,
                 put_used_throws = False\<rparr>"

definition empty_store :: KVNamespace where
  "empty_store = \<lparr>entries = (\<lambda>k. None), clock = 0\<rparr>"

definition good_key :: string where
  "good_key = ''0x4c0883a69102937d6231471b5dbb6204fe5129617082792ae468d01a3f362318''"

definition shop_env :: "KVNamespace \<Rightarrow> env" where
  "shop_env kv = \<lparr>BASIS_WALLET_ADDRESS = Some shop, BASIS_KV = Some kv,
                   BASIS_PRIVATE_KEY = Some good_key\<rparr>"


definition tx_not_hex :: string where
  "tx_not_hex = ''0xzzzzzzzzzzzzzzzzzzzzzzzzzzzzzzzzzzzzzzzzzzzzzzzzzzzzzzzzzzzzzzzz''"

definition bare_key :: string where
  "bare_key = ''4c0883a69102937d6231471b5dbb6204fe5129617082792ae468d01a3f362318''"

definition short_key :: string where
  "short_key = ''0x123''"

definition stub_performFetch :: "string \<Rightarrow> fetch_result" where
  "stub_performFetch url = \<lparr>fr_status = 200, fr_content = Some ''hello'', fr_error = None\<rparr>"


definition store_with_used :: KVNamespace where
  "store_with_used = \<lparr>entries = (\<lambda>k. None)(tx_a \<mapsto> (''used'', 86400)), clock = 0\<rparr>"

text \<open>
  An hour of traffic: a replay of \<open>tx_a\<close>, an hour passing, an underpaid request and a
  request without a credential.
\<close>

definition busy_hour :: "event list" where
  "busy_hour =
     [Request (stub_viem known_receipts) no_faults (Some tx_a),
      Elapse 3600,
      Request (stub_viem known_receipts) no_faults (Some tx_b),
      Request (stub_viem known_receipts) no_faults None]"


text \<open>A deployment whose signing key is too short, and a paid request to the fetch route.\<close>

definition bad_key_env :: "KVNamespace \<Rightarrow> env" where
  "bad_key_env kv = \<lparr>BASIS_WALLET_ADDRESS = Some shop, BASIS_KV = Some kv,
                      BASIS_PRIVATE_KEY = Some short_key\<rparr>"

definition paid_request :: request where
  "paid_request = \<lparr>authorization = Some tx_a, json_url = Some ''https://example.com''\<rparr>"


section \<open>The stand-ins evaluated\<close>

lemmas stub_defs = stub_viem_def stub_decodeEventLog_def stub_getTransactionReceipt_def
  known_receipts_def tx_a_def tx_b_def tx_c_def log_999_def log_1000_def
  USDC_BASE_ADDRESS_def TRANSFER_TOPIC_def payer_topic_def shop_topic_def shop_def

lemmas string_defs = hexPattern_def isHexDigit_def hexToNat_def hexDigitValue_def
  toLowerCase_def toLowerChar_def startsWith_def truthy_def orElse_def

lemma decode_log_999:
  "decodeUSDCLog (stub_viem known) log_999 =
     Some \<lparr>t_from = ''0x5aaeb6053f3e94c9b9a09f33669435e7ef1beaed'',
           t_to = ''0x742d35cc6634c0532925a3b844bc454e4438f44e'', t_value = 999\<rparr>"
  by (simp add: decodeUSDCLog_def stub_defs string_defs)

lemma decode_log_1000:
  "decodeUSDCLog (stub_viem known) log_1000 =
     Some \<lparr>t_from = ''0x5aaeb6053f3e94c9b9a09f33669435e7ef1beaed'',
           t_to = ''0x742d35cc6634c0532925a3b844bc454e4438f44e'', t_value = 1000\<rparr>"
  by (simp add: decodeUSDCLog_def stub_defs string_defs)

lemma shop_lower: "toLowerCase shop = ''0x742d35cc6634c0532925a3b844bc454e4438f44e''"
  by (simp add: shop_def toLowerCase_def toLowerChar_def)

lemma shop_topic_lower:
  "toLowerCase ''0x742d35cc6634c0532925a3b844bc454e4438f44e''
     = ''0x742d35cc6634c0532925a3b844bc454e4438f44e''"
  by (simp add: toLowerCase_def toLowerChar_def)

lemma not_test_tx: "\<not> isTestHash tx_a" "\<not> isTestHash tx_b" "\<not> isTestHash tx_c"
  by (simp_all add: isTestHash_def tx_a_def tx_b_def tx_c_def toLowerCase_def toLowerChar_def)

lemma receipt_of_tx:
  "getTransactionReceipt (stub_viem known_receipts) tx_a
     = Inr \<lparr>status = ''success'', logs = Some [log_1000]\<rparr>"
  "getTransactionReceipt (stub_viem known_receipts) tx_b
     = Inr \<lparr>status = ''success'', logs = Some [log_999]\<rparr>"
  "getTransactionReceipt (stub_viem known_receipts) tx_c
     = Inr \<lparr>status = ''success'', logs = Some [log_999, log_1000]\<rparr>"
  by (simp_all add: stub_viem_def stub_getTransactionReceipt_def known_receipts_def
        tx_a_def tx_b_def tx_c_def)

lemma transfers_of_logs:
  "transfers_to (stub_viem known) shop [log_999] =
     [\<lparr>t_from = ''0x5aaeb6053f3e94c9b9a09f33669435e7ef1beaed'',
       t_to = ''0x742d35cc6634c0532925a3b844bc454e4438f44e'', t_value = 999\<rparr>]"
  "transfers_to (stub_viem known) shop [log_1000] =
     [\<lparr>t_from = ''0x5aaeb6053f3e94c9b9a09f33669435e7ef1beaed'',
       t_to = ''0x742d35cc6634c0532925a3b844bc454e4438f44e'', t_value = 1000\<rparr>]"
  "transfers_to (stub_viem known) shop [log_999, log_1000] =
     [\<lparr>t_from = ''0x5aaeb6053f3e94c9b9a09f33669435e7ef1beaed'',
       t_to = ''0x742d35cc6634c0532925a3b844bc454e4438f44e'', t_value = 999\<rparr>,
      \<lparr>t_from = ''0x5aaeb6053f3e94c9b9a09f33669435e7ef1beaed'',
       t_to = ''0x742d35cc6634c0532925a3b844bc454e4438f44e'', t_value = 1000\<rparr>]"
  by (simp_all add: transfers_to_def List.map_filter_simps decode_log_999 decode_log_1000
        shop_lower shop_topic_lower)

lemma verify_tx_a:
  "verifyPayment (stub_viem known_receipts) tx_a shop
     = (\<lparr>valid = True, walletAddress = Some ''0x5aaeb6053f3e94c9b9a09f33669435e7ef1beaed'',
         error = None\<rparr>,
        [GetTransactionReceipt tx_a])"
  by (simp add: verifyPayment_def not_test_tx receipt_of_tx decode_log_1000 shop_lower
        MIN_PAYMENT_AMOUNT_def shop_topic_lower)

lemma verify_tx_c:
  "verifyPayment (stub_viem known_receipts) tx_c shop
     = (\<lparr>valid = True, walletAddress = Some ''0x5aaeb6053f3e94c9b9a09f33669435e7ef1beaed'',
         error = None\<rparr>,
        [GetTransactionReceipt tx_c])"
  by (simp add: verifyPayment_def not_test_tx receipt_of_tx decode_log_999 decode_log_1000
        shop_lower MIN_PAYMENT_AMOUNT_def shop_topic_lower)

lemma verify_tx_b:
  "verifyPayment (stub_viem known_receipts) tx_b shop
     = (\<lparr>valid = False, walletAddress = None,
         error = Some ''No valid USDC transfer found to recipient address with sufficient amount''\<rparr>,
        [GetTransactionReceipt tx_b])"
  by (simp add: verifyPayment_def not_test_tx receipt_of_tx decode_log_999
        shop_lower MIN_PAYMENT_AMOUNT_def shop_topic_lower)

lemma tx_shapes:
  "startsWith tx_a ''0x''" "length tx_a = 66"
  "startsWith tx_not_hex ''0x''" "length tx_not_hex = 66" "\<not> hexPattern tx_not_hex"
  by (simp_all add: startsWith_def tx_a_def tx_not_hex_def hexPattern_def isHexDigit_def)

lemma tx_b_shape: "startsWith tx_b ''0x''" "length tx_b = 66" "tx_b \<noteq> tx_a"
  by (simp_all add: startsWith_def tx_b_def tx_a_def)

lemma shop_env_simps:
  "truthy (BASIS_WALLET_ADDRESS (shop_env kv))"
  "orElse (BASIS_WALLET_ADDRESS (shop_env kv)) [] = shop"
  "BASIS_KV (shop_env kv) = Some kv"
  by (simp_all add: shop_env_def truthy_def orElse_def shop_def)

lemma no_faults_simps:
  "\<not> get_throws no_faults" "\<not> put_pending_throws no_faults"
  "\<not> delete_throws no_faults" "\<not> put_used_throws no_faults"
  by (simp_all add: no_faults_def)

lemma verifyPayment_catch_invalid: "\<not> valid (verifyPayment_catch txHash err)"
  by (simp add: verifyPayment_catch_def Let_def)

lemma verify_tx_not_hex:
  "\<not> valid (fst (verifyPayment (stub_viem known_receipts) tx_not_hex shop))"
  "snd (verifyPayment (stub_viem known_receipts) tx_not_hex shop) = [GetTransactionReceipt tx_not_hex]"
proof -
  have "\<not> isTestHash tx_not_hex"
    by (simp add: isTestHash_def tx_not_hex_def toLowerCase_def toLowerChar_def)
  moreover have "\<exists>err. getTransactionReceipt (stub_viem known_receipts) tx_not_hex = Inl err"
    by (simp add: stub_viem_def stub_getTransactionReceipt_def known_receipts_def
          tx_a_def tx_b_def tx_c_def tx_not_hex_def)
  ultimately show "\<not> valid (fst (verifyPayment (stub_viem known_receipts) tx_not_hex shop))"
    and "snd (verifyPayment (stub_viem known_receipts) tx_not_hex shop) = [GetTransactionReceipt tx_not_hex]"
    by (auto simp: verifyPayment_def verifyPayment_catch_invalid)
qed


section \<open>Properties of the chain verifier\<close>

text \<open>
  C10. For the literal identifier
  \<open>0x1234567890abcdef1234567890abcdef1234567890abcdef1234567890abcdef\<close> the verifier
  answers Invalid, with the placeholder message, and issues no ledger query: its list of
  effects is empty, whatever the ledger and the recipient are.
\<close>

theorem verifyPayment_literal_test_identifier:
  "verifyPayment lib ''0x1234567890abcdef1234567890abcdef1234567890abcdef1234567890abcdef'' r =
     (\<lparr>valid = False, walletAddress = None,
       error = Some ''Invalid transaction hash: This appears to be a test/placeholder hash. Please use a real transaction hash from Base Mainnet.''\<rparr>,
      [])"
  by (simp add: verifyPayment_def isTestHash_def)

text \<open>The loop returns the first transfer to the recipient that carries the minimum.\<close>

lemma scanLogs_find:
  "scanLogs lib r ls = find (\<lambda>t. MIN_PAYMENT_AMOUNT \<le> t_value t) (transfers_to lib r ls)"
  by (induction ls) (auto simp: transfers_to_def List.map_filter_simps split: option.splits)

lemma scanLogs_all_below:
  assumes "list_all (\<lambda>t. t_value t \<le> 999) (transfers_to lib r ls)"
  shows "scanLogs lib r ls = None"
proof -
  have "\<not> (\<exists>t. t \<in> set (transfers_to lib r ls) \<and> MIN_PAYMENT_AMOUNT \<le> t_value t)"
    using assms by (auto simp: list_all_iff MIN_PAYMENT_AMOUNT_def)
  then show ?thesis
    by (simp add: scanLogs_find find_None_iff)
qed

lemma scanLogs_first_enough:
  assumes "transfers_to lib r ls = t # rest" and "1000 \<le> t_value t"
  shows "scanLogs lib r ls = Some t"
  using assms by (simp add: scanLogs_find MIN_PAYMENT_AMOUNT_def)

lemma verifyPayment_effects_when_valid:
  "valid (fst (verifyPayment lib txHash r))
     \<Longrightarrow> snd (verifyPayment lib txHash r) = [GetTransactionReceipt txHash]"
  by (auto simp: verifyPayment_def split: if_splits)

text \<open>The recipient is compared in lower case on both sides.\<close>

lemma verifyPayment_recipient_case:
  assumes "toLowerCase r = toLowerCase r'"
  shows "verifyPayment lib txHash r = verifyPayment lib txHash r'"
proof -
  have "scanLogs lib r ls = scanLogs lib r' ls" for ls
    using assms by (simp add: scanLogs_find transfers_to_def)
  then have same: "scanLogs lib r = scanLogs lib r'"
    by (rule ext)
  show ?thesis
    unfolding verifyPayment_def same by (rule refl)
qed

text \<open>
  C7, as the code has it. The loop does not stop at the first transfer to the recipient:
  it skips one that carries too little and accepts a later one. So a receipt whose first
  transfer to the recipient carries 999 units can still verify (the receipt of \<open>tx_c\<close>
  below: 999 units, then 1000 units).
\<close>

theorem first_transfer_999_yet_valid:
  "getTransactionReceipt (stub_viem known_receipts) tx_c
      = Inr \<lparr>status = ''success'', logs = Some [log_999, log_1000]\<rparr>
   \<and> map t_value (transfers_to (stub_viem known_receipts) shop [log_999, log_1000]) = [999, 1000]
   \<and> valid (fst (verifyPayment (stub_viem known_receipts) tx_c shop))"
  by (simp add: receipt_of_tx transfers_of_logs verify_tx_c)

text \<open>
  C7, amended. For an identifier that is not a placeholder and a receipt that reports
  success: if every decodable token transfer to the configured recipient carries at most
  999 units, verification is Invalid; if the first decodable token transfer to the
  recipient carries at least 1000 units (1000 is enough), verification is Valid and the
  payer is that transfer's source. The recipient is matched through \<open>toLowerCase\<close> on
  both sides (see \<open>transfers_to\<close> and \<open>verifyPayment_recipient_case\<close>).
\<close>

theorem verifyPayment_amount_boundary:
  assumes "\<not> isTestHash txHash"
    and "getTransactionReceipt lib txHash = Inr rc"
    and "status rc = ''success''"
    and "logs rc = Some ls"
  shows "(list_all (\<lambda>t. t_value t \<le> 999) (transfers_to lib r ls)
            \<longrightarrow> \<not> valid (fst (verifyPayment lib txHash r)))
       \<and> (\<forall>t rest. transfers_to lib r ls = t # rest \<and> 1000 \<le> t_value t
            \<longrightarrow> fst (verifyPayment lib txHash r)
                  = \<lparr>valid = True, walletAddress = Some (t_from t), error = None\<rparr>)"
proof (intro conjI impI allI)
  assume "list_all (\<lambda>t. t_value t \<le> 999) (transfers_to lib r ls)"
  then have "scanLogs lib r ls = None"
    by (rule scanLogs_all_below)
  with assms show "\<not> valid (fst (verifyPayment lib txHash r))"
    by (simp add: verifyPayment_def)
next
  fix t rest
  assume "transfers_to lib r ls = t # rest \<and> 1000 \<le> t_value t"
  then have found: "scanLogs lib r ls = Some t" and "ls \<noteq> []"
    by (auto simp: scanLogs_first_enough transfers_to_def List.map_filter_simps)
  with assms show "fst (verifyPayment lib txHash r)
      = \<lparr>valid = True, walletAddress = Some (t_from t), error = None\<rparr>"
    by (simp add: verifyPayment_def)
qed

text \<open>At the boundary: the receipt of \<open>tx_b\<close> pays 999 units, that of \<open>tx_a\<close> 1000.\<close>

theorem verifyPayment_amount_boundary_witness:
  "\<not> valid (fst (verifyPayment (stub_viem known_receipts) tx_b shop))
   \<and> fst (verifyPayment (stub_viem known_receipts) tx_a shop)
       = \<lparr>valid = True, walletAddress = Some ''0x5aaeb6053f3e94c9b9a09f33669435e7ef1beaed'',
          error = None\<rparr>"
proof
  show "\<not> valid (fst (verifyPayment (stub_viem known_receipts) tx_b shop))"
    using verifyPayment_amount_boundary [OF not_test_tx(2) receipt_of_tx(2), of "[log_999]" shop]
    by (simp add: transfers_of_logs)
  show "fst (verifyPayment (stub_viem known_receipts) tx_a shop)
       = \<lparr>valid = True, walletAddress = Some ''0x5aaeb6053f3e94c9b9a09f33669435e7ef1beaed'',
          error = None\<rparr>"
    using verifyPayment_amount_boundary [OF not_test_tx(1) receipt_of_tx(1), of "[log_1000]" shop]
    by (simp add: transfers_of_logs)
qed


section \<open>Properties of the payment gate\<close>

lemma well_shaped:
  assumes "length txHash = 66"
  shows "truthy (Some txHash)" and "orElse (Some txHash) [] = txHash"
  using assms by (auto simp: truthy_def orElse_def)

text \<open>
  C3, as the code has it. The gate checks the prefix and the length of the header and
  nothing else. A header of 66 characters that starts with \<open>0x\<close> and continues with
  \<open>z\<close> does not match \<open>^0x[0-9a-fA-F]{64}$\<close>, yet the gate reads the store, writes the
  pending record, queries the ledger and deletes the record again; its answer is not the
  Payment Required one.
\<close>

theorem x402_non_hex_header_reaches_store:
  "\<not> hexPattern tx_not_hex
   \<and> fst (x402 (stub_viem known_receipts) no_faults (shop_env empty_store) (Some tx_not_hex))
       \<noteq> Reply (payment_required (shop_env empty_store))
   \<and> snd (snd (x402 (stub_viem known_receipts) no_faults (shop_env empty_store) (Some tx_not_hex)))
       = [KvGet tx_not_hex, KvPut tx_not_hex ''pending'' 300, GetTransactionReceipt tx_not_hex,
          KvDelete tx_not_hex]"
proof -
  have absent: "kv_get empty_store tx_not_hex = None"
    by (simp add: kv_get_def empty_store_def)
  show ?thesis
    by (simp add: x402_def Let_def well_shaped tx_shapes shop_env_simps no_faults_simps absent
          verify_tx_not_hex payment_required_def PENDING_TTL_def)
qed

text \<open>
  C3, amended. For every header that is absent, empty, does not start with \<open>0x\<close> or is
  not exactly 66 characters long, the production gate answers Payment Required (HTTP 402)
  and performs no store access and no verifier call: the environment is returned as it
  was and the list of effects is empty.
\<close>

theorem x402_rejects_malformed_header:
  assumes "authHeader = None \<or> authHeader = Some []
             \<or> (\<exists>h. authHeader = Some h \<and> (\<not> startsWith h ''0x'' \<or> length h \<noteq> 66))"
  shows "x402 lib faults e authHeader = (Reply (payment_required e), e, [])"
proof -
  from assms have "\<not> truthy authHeader \<or> \<not> startsWith (orElse authHeader []) ''0x''
             \<or> length (orElse authHeader []) \<noteq> 66"
    by (auto simp: truthy_def orElse_def)
  then show ?thesis
    by (simp add: x402_def)
qed

theorem x402_rejects_malformed_header_witness:
  "x402 (stub_viem known_receipts) no_faults (shop_env empty_store) (Some short_key)
     = (Reply (payment_required (shop_env empty_store)), shop_env empty_store, [])
   \<and> x402 (stub_viem known_receipts) no_faults (shop_env empty_store) None
     = (Reply (payment_required (shop_env empty_store)), shop_env empty_store, [])"
proof
  have "\<exists>h. Some short_key = Some h \<and> (\<not> startsWith h ''0x'' \<or> length h \<noteq> 66)"
    by (simp add: short_key_def)
  then show "x402 (stub_viem known_receipts) no_faults (shop_env empty_store) (Some short_key)
     = (Reply (payment_required (shop_env empty_store)), shop_env empty_store, [])"
    using x402_rejects_malformed_header [of "Some short_key"] by blast
  show "x402 (stub_viem known_receipts) no_faults (shop_env empty_store) None
     = (Reply (payment_required (shop_env empty_store)), shop_env empty_store, [])"
    using x402_rejects_malformed_header [of None] by blast
qed

text \<open>
  Every header of the spec's shape has the shape the gate tests, and a header of that
  shape is never answered in this way: the answer above marks exactly the headers that
  are absent, empty, without the prefix or of another length.
\<close>

lemma hexPattern_has_gate_shape:
  assumes "hexPattern h"
  shows "startsWith h ''0x'' \<and> length h = 66"
  using assms by (simp add: hexPattern_def startsWith_def numeral_2_eq_2)

lemma x402_payment_required_only_on_shape:
  assumes "startsWith h ''0x''" and "length h = 66"
  shows "x402 lib faults e (Some h) \<noteq> (Reply (payment_required e), e, [])"
  using assms
  by (auto simp: x402_def Let_def well_shaped payment_required_def split: option.splits)

text \<open>
  C1. The gate is invoked with a transaction identifier (a header of the shape the gate
  admits) whose record exists in the store, whatever its value (\<open>pending\<close>, \<open>used\<close>);
  the deployment has its recipient address and its store, and the store read returns.
  Then the request is rejected with HTTP 402 \<open>Payment Reuse Detected\<close>, the environment
  and with it the store is returned unchanged, and the only store operation is the read:
  no put, no delete.
\<close>

theorem x402_replay_detected:
  assumes "startsWith txHash ''0x''" and "length txHash = 66"
    and "truthy (BASIS_WALLET_ADDRESS e)"
    and "BASIS_KV e = Some kv"
    and "\<not> get_throws faults"
    and "kv_get kv txHash = Some v"
  shows "x402 lib faults e (Some txHash)
           = (Reply (Json 402 \<lparr>body_error = ''Payment Reuse Detected'',
                body_message = ''This transaction hash has already been used. Each payment can only be used once.'',
                body_payment_context = None\<rparr>),
              e, [KvGet txHash])"
  using assms by (simp add: x402_def well_shaped)

theorem x402_replay_detected_witness:
  "x402 (stub_viem known_receipts) no_faults
      (shop_env (kv_put empty_store tx_a ''used'' REPLAY_TTL)) (Some tx_a)
     = (Reply (Json 402 \<lparr>body_error = ''Payment Reuse Detected'',
          body_message = ''This transaction hash has already been used. Each payment can only be used once.'',
          body_payment_context = None\<rparr>),
        shop_env (kv_put empty_store tx_a ''used'' REPLAY_TTL), [KvGet tx_a])
   \<and> x402 (stub_viem known_receipts) no_faults
      (shop_env (kv_put empty_store tx_a ''pending'' PENDING_TTL)) (Some tx_a)
     = (Reply (Json 402 \<lparr>body_error = ''Payment Reuse Detected'',
          body_message = ''This transaction hash has already been used. Each payment can only be used once.'',
          body_payment_context = None\<rparr>),
        shop_env (kv_put empty_store tx_a ''pending'' PENDING_TTL), [KvGet tx_a])"
proof -
  have used: "kv_get (kv_put empty_store tx_a ''used'' REPLAY_TTL) tx_a = Some ''used''"
    by (simp add: kv_get_def kv_put_def empty_store_def REPLAY_TTL_def)
  have pending: "kv_get (kv_put empty_store tx_a ''pending'' PENDING_TTL) tx_a = Some ''pending''"
    by (simp add: kv_get_def kv_put_def empty_store_def PENDING_TTL_def)
  show ?thesis
    using x402_replay_detected [OF tx_shapes(1,2) shop_env_simps(1,3) no_faults_simps(1) used]
      x402_replay_detected [OF tx_shapes(1,2) shop_env_simps(1,3) no_faults_simps(1) pending]
    by blast
qed

text \<open>
  Whatever the configuration and whether or not the read throws, a request whose record
  exists never changes the store, never writes or deletes, and never reaches the handler.
\<close>

lemma x402_existing_record_store_unchanged:
  assumes "BASIS_KV e = Some kv" and "kv_get kv txHash = Some v"
  shows "fst (snd (x402 lib faults e (Some txHash))) = e"
    and "set (snd (snd (x402 lib faults e (Some txHash)))) \<subseteq> {KvGet txHash}"
    and "\<forall>ctx. fst (x402 lib faults e (Some txHash)) \<noteq> CallNext ctx"
  using assms by (auto simp: x402_def Let_def orElse_def truthy_def split: if_splits)

text \<open>The gate on an identifier with no live record, when the first two store calls succeed.\<close>

lemma x402_absent_unfolded:
  assumes "startsWith txHash ''0x''" and "length txHash = 66"
    and "truthy (BASIS_WALLET_ADDRESS e)"
    and "BASIS_KV e = Some kv"
    and "\<not> get_throws faults"
    and "kv_get kv txHash = None"
    and "\<not> put_pending_throws faults"
  shows "x402 lib faults e (Some txHash) =
     (let basisWalletAddress = orElse (BASIS_WALLET_ADDRESS e) [];
          kv1 = kv_put kv txHash ''pending'' PENDING_TTL;
          verification = fst (verifyPayment lib txHash basisWalletAddress);
          fx = [KvGet txHash, KvPut txHash ''pending'' PENDING_TTL]
               @ snd (verifyPayment lib txHash basisWalletAddress)
      in
      if \<not> valid verification
      then
        (Reply (Json 402 \<lparr>body_error = ''Payment Verification Failed'',
           body_message = orElse (error verification)
             ''Transaction does not meet payment requirements'',
           body_payment_context = Some \<lparr>chain = ''base'', network = ''mainnet'',
             currency = ''USDC'', amount = ''0.001'',
             recipient = basisWalletAddress\<rparr>\<rparr>),
         e\<lparr>BASIS_KV := Some (if delete_throws faults then kv1 else kv_delete kv1 txHash)\<rparr>,
         fx @ [KvDelete txHash])
      else if put_used_throws faults
      then
        (Reply (Json 500 \<lparr>body_error = ''Internal Server Error'',
           body_message = ''Payment verified but failed to record usage. Please contact support.'',
           body_payment_context = None\<rparr>),
         e\<lparr>BASIS_KV := Some kv1\<rparr>,
         fx @ [KvPut txHash ''used'' REPLAY_TTL])
      else
        (CallNext \<lparr>wallet_address = None, tx_hash = None\<rparr>,
         e\<lparr>BASIS_KV := Some (kv_put kv1 txHash ''used'' REPLAY_TTL)\<rparr>,
         fx @ [KvPut txHash ''used'' REPLAY_TTL]))"
  using assms by (simp add: x402_def well_shaped)

text \<open>
  C6. For a well-shaped identifier with no record, in a configured deployment whose first
  two store calls return: the gate reads the store, writes \<open>pending\<close> with a time to
  live of 300 seconds, and only then runs the verifier; the last store call is the write
  of \<open>used\<close> with 86400 seconds when the verification is valid, the delete otherwise.
  When the verification is valid and that write returns, the record of the identifier is
  \<open>used\<close>, expiring 86400 seconds after the request, and the request is passed on to
  the handler (with no context variable set, the gate's two assignments being lost).
\<close>

theorem x402_lock_lifecycle:
  assumes "startsWith txHash ''0x''" and "length txHash = 66"
    and "truthy (BASIS_WALLET_ADDRESS e)"
    and "BASIS_KV e = Some kv"
    and "\<not> get_throws faults"
    and "kv_get kv txHash = None"
    and "\<not> put_pending_throws faults"
  shows "snd (snd (x402 lib faults e (Some txHash)))
           = [KvGet txHash, KvPut txHash ''pending'' 300]
             @ snd (verifyPayment lib txHash (orElse (BASIS_WALLET_ADDRESS e) []))
             @ [if valid (fst (verifyPayment lib txHash (orElse (BASIS_WALLET_ADDRESS e) [])))
                then KvPut txHash ''used'' 86400 else KvDelete txHash]
       \<and> (valid (fst (verifyPayment lib txHash (orElse (BASIS_WALLET_ADDRESS e) [])))
            \<and> \<not> put_used_throws faults
          \<longrightarrow> x402 lib faults e (Some txHash)
                = (CallNext \<lparr>wallet_address = None, tx_hash = None\<rparr>,
                   e\<lparr>BASIS_KV := Some (kv\<lparr>entries := (entries kv)(txHash \<mapsto> (''used'', clock kv + 86400))\<rparr>)\<rparr>,
                   [KvGet txHash, KvPut txHash ''pending'' 300, GetTransactionReceipt txHash,
                    KvPut txHash ''used'' 86400]))"
proof (intro conjI impI)
  show "snd (snd (x402 lib faults e (Some txHash)))
           = [KvGet txHash, KvPut txHash ''pending'' 300]
             @ snd (verifyPayment lib txHash (orElse (BASIS_WALLET_ADDRESS e) []))
             @ [if valid (fst (verifyPayment lib txHash (orElse (BASIS_WALLET_ADDRESS e) [])))
                then KvPut txHash ''used'' 86400 else KvDelete txHash]"
    by (simp add: x402_absent_unfolded [OF assms] Let_def PENDING_TTL_def REPLAY_TTL_def)
next
  assume ok: "valid (fst (verifyPayment lib txHash (orElse (BASIS_WALLET_ADDRESS e) [])))
            \<and> \<not> put_used_throws faults"
  then have "snd (verifyPayment lib txHash (orElse (BASIS_WALLET_ADDRESS e) []))
      = [GetTransactionReceipt txHash]"
    by (simp add: verifyPayment_effects_when_valid)
  with ok show "x402 lib faults e (Some txHash)
                = (CallNext \<lparr>wallet_address = None, tx_hash = None\<rparr>,
                   e\<lparr>BASIS_KV := Some (kv\<lparr>entries := (entries kv)(txHash \<mapsto> (''used'', clock kv + 86400))\<rparr>)\<rparr>,
                   [KvGet txHash, KvPut txHash ''pending'' 300, GetTransactionReceipt txHash,
                    KvPut txHash ''used'' 86400])"
    by (simp add: x402_absent_unfolded [OF assms] Let_def PENDING_TTL_def REPLAY_TTL_def
          kv_put_def)
qed

theorem x402_lock_lifecycle_witness:
  "x402 (stub_viem known_receipts) no_faults (shop_env empty_store) (Some tx_a)
     = (CallNext \<lparr>wallet_address = None, tx_hash = None\<rparr>,
        (shop_env empty_store)\<lparr>BASIS_KV :=
           Some (empty_store\<lparr>entries := (entries empty_store)(tx_a \<mapsto> (''used'', 86400))\<rparr>)\<rparr>,
        [KvGet tx_a, KvPut tx_a ''pending'' 300, GetTransactionReceipt tx_a,
         KvPut tx_a ''used'' 86400])"
proof -
  have absent: "kv_get empty_store tx_a = None"
    by (simp add: kv_get_def empty_store_def)
  have paid: "valid (fst (verifyPayment (stub_viem known_receipts) tx_a
                 (orElse (BASIS_WALLET_ADDRESS (shop_env empty_store)) [])))
              \<and> \<not> put_used_throws no_faults"
    by (simp add: shop_env_simps verify_tx_a no_faults_simps)
  have "clock empty_store = 0"
    by (simp add: empty_store_def)
  then show ?thesis
    using x402_lock_lifecycle
      [OF tx_shapes(1,2) shop_env_simps(1,3) no_faults_simps(1) absent no_faults_simps(2)]
      paid
    by (simp add: shop_env_simps verify_tx_a)
qed

text \<open>
  C5. The verifier has reported the payment valid and the write of \<open>used\<close> throws: the
  gate answers HTTP 500 \<open>Internal Server Error\<close> and does not call the handler (the
  route's answer is the gate's, for any handler and any body). The store keeps the
  pending record.
\<close>

theorem x402_fails_closed_when_used_write_fails:
  assumes "startsWith txHash ''0x''" and "length txHash = 66"
    and "truthy (BASIS_WALLET_ADDRESS e)"
    and "BASIS_KV e = Some kv"
    and "\<not> get_throws faults"
    and "kv_get kv txHash = None"
    and "\<not> put_pending_throws faults"
    and "valid (fst (verifyPayment lib txHash (orElse (BASIS_WALLET_ADDRESS e) [])))"
    and "put_used_throws faults"
  shows "x402 lib faults e (Some txHash)
           = (Reply (Json 500 \<lparr>body_error = ''Internal Server Error'',
                body_message = ''Payment verified but failed to record usage. Please contact support.'',
                body_payment_context = None\<rparr>),
              e\<lparr>BASIS_KV := Some (kv_put kv txHash ''pending'' 300)\<rparr>,
              [KvGet txHash, KvPut txHash ''pending'' 300, GetTransactionReceipt txHash,
               KvPut txHash ''used'' 86400])
       \<and> fst (verify_url lib performFetch now faults e \<lparr>authorization = Some txHash, json_url = body\<rparr>)
           = Json 500 \<lparr>body_error = ''Internal Server Error'',
                body_message = ''Payment verified but failed to record usage. Please contact support.'',
                body_payment_context = None\<rparr>"
proof -
  have gate: "x402 lib faults e (Some txHash)
           = (Reply (Json 500 \<lparr>body_error = ''Internal Server Error'',
                body_message = ''Payment verified but failed to record usage. Please contact support.'',
                body_payment_context = None\<rparr>),
              e\<lparr>BASIS_KV := Some (kv_put kv txHash ''pending'' 300)\<rparr>,
              [KvGet txHash, KvPut txHash ''pending'' 300, GetTransactionReceipt txHash,
               KvPut txHash ''used'' 86400])"
    using assms(8,9) verifyPayment_effects_when_valid [OF assms(8)]
    by (simp add: x402_absent_unfolded [OF assms(1-7)] Let_def PENDING_TTL_def REPLAY_TTL_def)
  then show ?thesis
    by (simp add: verify_url_def)
qed

theorem x402_fails_closed_when_used_write_fails_witness:
  "x402 (stub_viem known_receipts) (no_faults\<lparr>put_used_throws := True\<rparr>)
        (shop_env empty_store) (Some tx_a)
     = (Reply (Json 500 \<lparr>body_error = ''Internal Server Error'',
          body_message = ''Payment verified but failed to record usage. Please contact support.'',
          body_payment_context = None\<rparr>),
        (shop_env empty_store)\<lparr>BASIS_KV := Some (kv_put empty_store tx_a ''pending'' 300)\<rparr>,
        [KvGet tx_a, KvPut tx_a ''pending'' 300, GetTransactionReceipt tx_a,
         KvPut tx_a ''used'' 86400])
   \<and> fst (verify_url (stub_viem known_receipts) stub_performFetch ''2026-01-01T00:00:00.000Z''
            (no_faults\<lparr>put_used_throws := True\<rparr>) (shop_env empty_store)
            \<lparr>authorization = Some tx_a, json_url = Some ''https://example.com''\<rparr>)
     = Json 500 \<lparr>body_error = ''Internal Server Error'',
          body_message = ''Payment verified but failed to record usage. Please contact support.'',
          body_payment_context = None\<rparr>"
proof -
  have f: "\<not> get_throws (no_faults\<lparr>put_used_throws := True\<rparr>)"
    "\<not> put_pending_throws (no_faults\<lparr>put_used_throws := True\<rparr>)"
    "put_used_throws (no_faults\<lparr>put_used_throws := True\<rparr>)"
    by (simp_all add: no_faults_def)
  have absent: "kv_get empty_store tx_a = None"
    by (simp add: kv_get_def empty_store_def)
  have paid: "valid (fst (verifyPayment (stub_viem known_receipts) tx_a
                 (orElse (BASIS_WALLET_ADDRESS (shop_env empty_store)) [])))"
    by (simp add: shop_env_simps verify_tx_a)
  show ?thesis
    using x402_fails_closed_when_used_write_fails
      [OF tx_shapes(1,2) shop_env_simps(1,3) f(1) absent f(2) paid f(3)]
    by blast
qed

text \<open>One request: the binding stays, the clock stands still, a live "used" record stays.\<close>

lemma x402_keeps_binding:
  assumes "BASIS_KV e = Some kv"
  shows "\<exists>kv1. BASIS_KV (fst (snd (x402 lib faults e authHeader))) = Some kv1 \<and> clock kv1 = clock kv"
  using assms
  by (simp add: x402_def Let_def kv_put_def kv_delete_def)

lemma x402_keeps_used:
  assumes "BASIS_KV e = Some kv"
    and "entries kv k = Some (''used'', expires)"
    and "clock kv < expires"
    and "BASIS_KV (fst (snd (x402 lib faults e authHeader))) = Some kv1"
  shows "entries kv1 k = Some (''used'', expires)"
proof (cases "orElse authHeader [] = k")
  case True
  with assms(2,3) have "kv_get kv (orElse authHeader []) \<noteq> None"
    by (simp add: kv_get_def)
  with assms(1,2,4) show ?thesis
    by (auto simp: x402_def Let_def split: if_splits)
next
  case False
  with assms show ?thesis
    by (auto simp: x402_def Let_def kv_put_def kv_delete_def split: if_splits)
qed

lemma apply_event_keeps_binding:
  assumes "BASIS_KV e = Some kv"
  shows "\<exists>kv1. BASIS_KV (apply_event e ev) = Some kv1 \<and> clock kv \<le> clock kv1"
proof (cases ev)
  case (Request lib faults authHeader)
  with x402_keeps_binding [OF assms, of lib faults authHeader] show ?thesis
    by auto
next
  case (Elapse seconds)
  with assms show ?thesis by simp
qed

lemma apply_event_keeps_used:
  assumes "BASIS_KV e = Some kv"
    and "entries kv k = Some (''used'', expires)"
    and "BASIS_KV (apply_event e ev) = Some kv1"
    and "clock kv1 < expires"
  shows "entries kv1 k = Some (''used'', expires)"
proof (cases ev)
  case (Request lib faults authHeader)
  from x402_keeps_binding [OF assms(1), of lib faults authHeader] assms(3) Request
  have "clock kv1 = clock kv" by auto
  with assms Request show ?thesis
    using x402_keeps_used [of e kv k expires lib faults authHeader kv1] by simp
next
  case (Elapse seconds)
  with assms show ?thesis by auto
qed

lemma run_keeps_binding:
  assumes "BASIS_KV e = Some kv"
  shows "\<exists>kv1. BASIS_KV (run e evs) = Some kv1 \<and> clock kv \<le> clock kv1"
  using assms
proof (induction evs arbitrary: e kv)
  case Nil
  then show ?case by (simp add: run_def)
next
  case (Cons ev evs)
  from apply_event_keeps_binding [OF Cons.prems, of ev]
  obtain kv1 where k1: "BASIS_KV (apply_event e ev) = Some kv1" "clock kv \<le> clock kv1"
    by blast
  from Cons.IH [OF k1(1)]
  obtain kv2 where "BASIS_KV (run (apply_event e ev) evs) = Some kv2" "clock kv1 \<le> clock kv2"
    by blast
  with k1 show ?case
    by (auto simp: run_def)
qed

text \<open>
  C4. Along any history of gate executions (any headers, ledgers and store faults) and
  passing time, a record that holds \<open>used\<close> is neither deleted nor overwritten: as long
  as the clock is below the record's expiration it is still there, unchanged, and a read
  returns \<open>used\<close>. Only expiry ends it; the gate writes the record with 86400 seconds to
  live.
\<close>

theorem used_record_kept_until_expiry:
  assumes "BASIS_KV e = Some kv"
    and "entries kv k = Some (''used'', expires)"
    and "BASIS_KV (run e evs) = Some kv'"
    and "clock kv' < expires"
  shows "entries kv' k = Some (''used'', expires) \<and> kv_get kv' k = Some ''used''"
proof -
  have "entries kv' k = Some (''used'', expires)"
    using assms
  proof (induction evs arbitrary: e kv)
    case Nil
    then show ?case by (simp add: run_def)
  next
    case (Cons ev evs)
    from apply_event_keeps_binding [OF Cons.prems(1), of ev]
    obtain kv1 where k1: "BASIS_KV (apply_event e ev) = Some kv1"
      by blast
    have later: "BASIS_KV (run (apply_event e ev) evs) = Some kv'"
      using Cons.prems(3) by (simp add: run_def)
    from run_keeps_binding [OF k1, of evs] later have "clock kv1 \<le> clock kv'"
      by auto
    with Cons.prems(4) have "clock kv1 < expires"
      by simp
    with apply_event_keeps_used [OF Cons.prems(1,2) k1]
    have "entries kv1 k = Some (''used'', expires)" .
    from Cons.IH [OF k1 this later Cons.prems(4)] show ?case .
  qed
  with assms(4) show ?thesis
    by (simp add: kv_get_def)
qed

lemma busy_hour_end:
  "BASIS_KV (run (shop_env store_with_used) busy_hour)
     = Some \<lparr>entries = (\<lambda>k. None)(tx_a \<mapsto> (''used'', 86400), tx_b := None), clock = 3600\<rparr>"
proof -
  have s1: "apply_event (shop_env store_with_used)
              (Request (stub_viem known_receipts) no_faults (Some tx_a))
            = shop_env store_with_used"
    by (simp add: x402_def Let_def well_shaped tx_shapes shop_env_simps no_faults_simps
          kv_get_def store_with_used_def)
  have s2: "apply_event (shop_env store_with_used) (Elapse 3600)
            = shop_env (store_with_used\<lparr>clock := 3600\<rparr>)"
    by (simp add: shop_env_def store_with_used_def)
  have absent: "kv_get (store_with_used\<lparr>clock := 3600\<rparr>) tx_b = None"
    using tx_b_shape(3) by (simp add: kv_get_def store_with_used_def)
  have "fst (snd (x402 (stub_viem known_receipts) no_faults
                (shop_env (store_with_used\<lparr>clock := 3600\<rparr>)) (Some tx_b)))
          = (shop_env (store_with_used\<lparr>clock := 3600\<rparr>))\<lparr>BASIS_KV :=
               Some (kv_delete (kv_put (store_with_used\<lparr>clock := 3600\<rparr>) tx_b ''pending'' PENDING_TTL) tx_b)\<rparr>"
    by (simp add: x402_absent_unfolded [OF tx_b_shape(1,2) shop_env_simps(1,3) no_faults_simps(1)
            absent no_faults_simps(2)] Let_def shop_env_simps verify_tx_b no_faults_simps)
  then have s3: "apply_event (shop_env (store_with_used\<lparr>clock := 3600\<rparr>))
              (Request (stub_viem known_receipts) no_faults (Some tx_b))
            = shop_env \<lparr>entries = (\<lambda>k. None)(tx_a \<mapsto> (''used'', 86400), tx_b := None), clock = 3600\<rparr>"
    by (simp add: kv_put_def kv_delete_def store_with_used_def shop_env_def)
  have s4: "apply_event (shop_env kv) (Request (stub_viem known_receipts) no_faults None)
            = shop_env kv" for kv
    by (simp add: x402_def truthy_def)
  show ?thesis
    by (simp only: run_def busy_hour_def foldl_Cons foldl_Nil s1 s2 s3 s4 shop_env_simps)
qed

theorem used_record_kept_until_expiry_witness:
  "map_option (\<lambda>kv. kv_get kv tx_a) (BASIS_KV (run (shop_env store_with_used) busy_hour))
     = Some (Some ''used'')"
proof -
  have start: "entries store_with_used tx_a = Some (''used'', 86400)"
    by (simp add: store_with_used_def)
  have before: "clock \<lparr>entries = (\<lambda>k. None)(tx_a \<mapsto> (''used'', 86400), tx_b := None), clock = 3600\<rparr>
                  < (86400 :: nat)"
    by simp
  from used_record_kept_until_expiry [OF shop_env_simps(3) start busy_hour_end before]
  have "kv_get \<lparr>entries = (\<lambda>k. None)(tx_a \<mapsto> (''used'', 86400), tx_b := None), clock = 3600\<rparr> tx_a
          = Some ''used''"
    by blast
  then show ?thesis
    by (simp only: busy_hour_end option.map)
qed

text \<open>
  C2. The scan, cache, calc, hash and badge entry points install the mock gate. It passes
  every header that starts with \<open>0x\<close> and has 66 characters on to the handler, with no
  effect at all (no store read or write, no ledger query), the environment unchanged; so
  the same header passes any number of times in a row. Nothing looks at the 64 characters
  after the prefix.
\<close>

theorem mock_gate_admits_on_shape_alone:
  assumes "ep \<in> {Scan, Cache, Calc, Hash, Badge}"
    and "startsWith authHeader ''0x''" and "length authHeader = 66"
  shows "run_gate (installed ep) lib faults e (Some authHeader)
           = (CallNext \<lparr>wallet_address = None, tx_hash = None\<rparr>, e, [])
       \<and> serve_all ep lib faults e (replicate n (Some authHeader))
           = (replicate n (CallNext \<lparr>wallet_address = None, tx_hash = None\<rparr>), e, [])"
proof -
  from assms(1) have mock: "installed ep = Mock_gate"
    by auto
  have one: "run_gate (installed ep) lib faults e (Some authHeader)
           = (CallNext \<lparr>wallet_address = None, tx_hash = None\<rparr>, e, [])"
    using assms(2,3) by (simp add: mock x402_mock_def well_shaped)
  have "serve_all ep lib faults e (replicate n (Some authHeader))
           = (replicate n (CallNext \<lparr>wallet_address = None, tx_hash = None\<rparr>), e, [])"
    by (induction n) (simp_all add: one)
  with one show ?thesis
    by simp
qed

theorem mock_gate_admits_on_shape_alone_witness:
  "\<not> hexPattern tx_not_hex
   \<and> run_gate (installed Scan) (stub_viem known_receipts) no_faults (shop_env empty_store)
        (Some tx_not_hex)
      = (CallNext \<lparr>wallet_address = None, tx_hash = None\<rparr>, shop_env empty_store, [])
   \<and> serve_all Cache (stub_viem known_receipts) no_faults (shop_env empty_store)
        (replicate 3 (Some tx_not_hex))
      = (replicate 3 (CallNext \<lparr>wallet_address = None, tx_hash = None\<rparr>), shop_env empty_store, [])"
proof -
  have "Scan \<in> {Scan, Cache, Calc, Hash, Badge}" and "Cache \<in> {Scan, Cache, Calc, Hash, Badge}"
    by simp_all
  then show ?thesis
    using mock_gate_admits_on_shape_alone [of Scan tx_not_hex, OF _ tx_shapes(3,4)]
      mock_gate_admits_on_shape_alone [of Cache tx_not_hex, OF _ tx_shapes(3,4)]
      tx_shapes(5)
    by blast
qed



lemma verifyPayment_effects:
  "set (snd (verifyPayment lib txHash r)) \<subseteq> {GetTransactionReceipt txHash}"
  by (simp add: verifyPayment_def)

text \<open>
  Within one request the delete and the write of \<open>used\<close> exclude each other: the delete
  belongs to the failed verification, the write to the valid one.
\<close>

lemma x402_delete_excludes_used_write:
  assumes "KvDelete k \<in> set (snd (snd (x402 lib faults e authHeader)))"
  shows "KvPut k' ''used'' ttl \<notin> set (snd (snd (x402 lib faults e authHeader)))"
  using assms verifyPayment_effects [of lib "orElse authHeader []" "orElse (BASIS_WALLET_ADDRESS e) []"]
  by (auto simp: x402_def Let_def split: if_splits option.splits)


section \<open>Properties of the signers and of the fetch route\<close>

lemmas signer_defs = signContent_def signRiskAssessment_def signContent_unvalidated_def
  signProofOfCustody_def signDataIntegrity_def signAuditTrail_def signBadge_def
  signTimeline_def signClassification_def

text \<open>
  C8, as the code has it. \<open>signContent\<close> puts \<open>0x\<close> in front of a key that lacks it
  before it validates, so a key of 64 hexadecimal characters without the prefix (not a
  66-character \<open>0x\<close> string) is accepted and a certificate comes back.
\<close>

theorem signContent_accepts_bare_key:
  "length bare_key = 64 \<and> \<not> hexPattern bare_key
   \<and> signContent (stub_viem []) ''2026-01-01T00:00:00.000Z'' ''hello'' ''https://example.com''
         (Some bare_key)
       = Inr \<lparr>witness_id = ''basis-edge-node-01'', timestamp = ''2026-01-01T00:00:00.000Z'',
              signing_method = ''ecdsa-secp256k1'',
              signer = ''0x4c0883a69102937d6231471b5dbb6204fe512961'',
              hash = ''https://example.com:2026-01-01T00:00:00.000Z:hello'',
              signature = ''https://example.com:2026-01-01T00:00:00.000Z:hello0x4c0883a69102937d6231471b5dbb6204fe5129617082792ae468d01a3f362318''\<rparr>"
  by (simp add: signContent_def normalizeKey_def bare_key_def Let_def stub_viem_def
        stub_privateKeyToAccount_def string_defs)

text \<open>
  C8, amended. Every signing function fails with the missing-key error, and produces no
  certificate, when the private key is absent or empty. The signers of content and of
  risk assessments also fail with a configuration error, before the library is called,
  whenever the key, after \<open>0x\<close> has been put in front of it if it did not start with
  it, is not \<open>0x\<close> followed by 64 hexadecimal characters. What the other signers do
  with a malformed key is decided by the library alone.
\<close>

theorem signers_fail_on_bad_key:
  "(\<not> truthy privateKey \<longrightarrow>
       signContent lib now content url privateKey = Inl KeyMissing
     \<and> signRiskAssessment lib target score assessed_at privateKey = Inl KeyMissing
     \<and> signContent_unvalidated lib now content url privateKey = Inl KeyMissing
     \<and> signProofOfCustody lib now key val privateKey = Inl KeyMissing
     \<and> signDataIntegrity lib now key val privateKey = Inl KeyMissing
     \<and> signAuditTrail lib now formulaName jsonInputs result privateKey = Inl KeyMissing
     \<and> signBadge lib now wallet badge_status sessionId privateKey = Inl KeyMissing
     \<and> signTimeline lib now eventHash event_time nonce privateKey = Inl KeyMissing
     \<and> signClassification lib now imageHash label score privateKey = Inl KeyMissing)
   \<and> (\<forall>pk. privateKey = Some pk \<and> pk \<noteq> [] \<and> \<not> hexPattern (normalizeKey pk) \<longrightarrow>
       is_configuration_error (signContent lib now content url privateKey)
     \<and> is_configuration_error (signRiskAssessment lib target score assessed_at privateKey))"
proof (intro conjI impI allI)
  fix pk
  assume bad: "privateKey = Some pk \<and> pk \<noteq> [] \<and> \<not> hexPattern (normalizeKey pk)"
  then show "is_configuration_error (signContent lib now content url privateKey)"
    by (simp add: signContent_def Let_def is_configuration_error_def)
  from bad show "is_configuration_error (signRiskAssessment lib target score assessed_at privateKey)"
    by (simp add: signRiskAssessment_def Let_def is_configuration_error_def)
qed (auto simp: signer_defs truthy_def split: option.splits)

theorem signers_fail_on_bad_key_witness:
  "signBadge (stub_viem []) ''2026-01-01T00:00:00.000Z'' ''0xabc'' ''VERIFIED'' ''s-1'' None = Inl KeyMissing
   \<and> signContent (stub_viem []) ''2026-01-01T00:00:00.000Z'' ''hello'' ''https://example.com'' (Some [])
        = Inl KeyMissing
   \<and> is_configuration_error
        (signContent (stub_viem []) ''2026-01-01T00:00:00.000Z'' ''hello'' ''https://example.com''
           (Some short_key))
   \<and> is_configuration_error
        (signRiskAssessment (stub_viem []) ''0xabc'' ''42'' ''2026-01-01T00:00:00.000Z''
           (Some tx_not_hex))"
proof -
  have none: "\<not> truthy None" and empty: "\<not> truthy (Some [])"
    by (simp_all add: truthy_def)
  have short: "Some short_key = Some short_key \<and> short_key \<noteq> [] \<and> \<not> hexPattern (normalizeKey short_key)"
    by (simp add: short_key_def normalizeKey_def hexPattern_def startsWith_def)
  have nonhex: "Some tx_not_hex = Some tx_not_hex \<and> tx_not_hex \<noteq> []
                  \<and> \<not> hexPattern (normalizeKey tx_not_hex)"
    by (simp add: tx_not_hex_def normalizeKey_def hexPattern_def startsWith_def isHexDigit_def)
  note missing = signers_fail_on_bad_key [where privateKey = None, THEN conjunct1, THEN mp, OF none]
  note blank = signers_fail_on_bad_key [where privateKey = "Some []", THEN conjunct1, THEN mp, OF empty]
  note too_short = signers_fail_on_bad_key [where privateKey = "Some short_key", THEN conjunct2,
      THEN spec, THEN mp, OF short]
  note not_hex = signers_fail_on_bad_key [where privateKey = "Some tx_not_hex", THEN conjunct2,
      THEN spec, THEN mp, OF nonhex]
  show ?thesis
    by (simp add: missing blank too_short not_hex)
qed

text \<open>Signing diverges on a malformed key only when the library does.\<close>

lemma unvalidated_signer_defers_to_library:
  assumes "pk \<noteq> []"
  shows "signBadge lib now wallet badge_status sessionId (Some pk) = Inl e
           \<longleftrightarrow> (e = AccountError \<and> privateKeyToAccount lib pk = None)"
  using assms by (auto simp: signBadge_def Let_def split: option.splits)

lemma x402_admitted:
  assumes "x402 lib faults e authHeader = (CallNext ctx, e1, fx)"
  shows "\<exists>txHash kv. authHeader = Some txHash \<and> BASIS_KV e = Some kv \<and> kv_get kv txHash = None
           \<and> e1 = e\<lparr>BASIS_KV := Some (kv\<lparr>entries := (entries kv)(txHash \<mapsto> (''used'', clock kv + 86400))\<rparr>)\<rparr>
           \<and> fx = [KvGet txHash, KvPut txHash ''pending'' 300, GetTransactionReceipt txHash,
                   KvPut txHash ''used'' 86400]"
proof -
  from assms obtain txHash where h: "authHeader = Some txHash" "txHash \<noteq> []"
    by (cases authHeader) (auto simp: x402_def truthy_def split: if_splits)
  from assms h obtain kv where kv: "BASIS_KV e = Some kv"
    by (cases "BASIS_KV e") (auto simp: x402_def Let_def truthy_def orElse_def split: if_splits)
  from assms h kv have absent: "kv_get kv txHash = None"
    by (auto simp: x402_def Let_def truthy_def orElse_def split: if_splits)
  from assms h kv absent
  have ok: "valid (fst (verifyPayment lib txHash (orElse (BASIS_WALLET_ADDRESS e) [])))"
    by (auto simp: x402_def Let_def truthy_def orElse_def split: if_splits)
  from assms h kv absent ok verifyPayment_effects_when_valid [OF ok]
  have "e1 = e\<lparr>BASIS_KV := Some (kv\<lparr>entries := (entries kv)(txHash \<mapsto> (''used'', clock kv + 86400))\<rparr>)\<rparr>
           \<and> fx = [KvGet txHash, KvPut txHash ''pending'' 300, GetTransactionReceipt txHash,
                   KvPut txHash ''used'' 86400]"
    by (auto simp: x402_def Let_def truthy_def orElse_def kv_put_def PENDING_TTL_def REPLAY_TTL_def
          split: if_splits)
  with h kv absent show ?thesis
    by blast
qed

lemma x402_paid_request:
  "x402 (stub_viem known_receipts) no_faults (bad_key_env empty_store) (authorization paid_request)
     = (CallNext \<lparr>wallet_address = None, tx_hash = None\<rparr>,
        (bad_key_env empty_store)\<lparr>BASIS_KV :=
           Some (empty_store\<lparr>entries := (entries empty_store)(tx_a \<mapsto> (''used'', 86400))\<rparr>)\<rparr>,
        [KvGet tx_a, KvPut tx_a ''pending'' 300, GetTransactionReceipt tx_a,
         KvPut tx_a ''used'' 86400])"
proof -
  have env: "truthy (BASIS_WALLET_ADDRESS (bad_key_env empty_store))"
    "BASIS_KV (bad_key_env empty_store) = Some empty_store"
    "orElse (BASIS_WALLET_ADDRESS (bad_key_env empty_store)) [] = shop"
    by (simp_all add: bad_key_env_def truthy_def orElse_def shop_def)
  have absent: "kv_get empty_store tx_a = None"
    by (simp add: kv_get_def empty_store_def)
  have "clock empty_store = 0"
    by (simp add: empty_store_def)
  then show ?thesis
    by (simp add: paid_request_def
          x402_absent_unfolded [OF tx_shapes(1,2) env(1,2) no_faults_simps(1) absent no_faults_simps(2)]
          Let_def env(3) verify_tx_a no_faults_simps kv_put_def PENDING_TTL_def REPLAY_TTL_def)
qed

lemma short_key_nonempty: "short_key \<noteq> []"
  by (simp add: short_key_def)

lemma sign_short_key:
  "signContent lib now content url (Some short_key) = Inl (KeyBadLength 5)"
  by (simp add: signContent_def normalizeKey_def short_key_def startsWith_def Let_def)

text \<open>
  C9, as the code has it. The signer runs in the handler, after the gate. A paid request
  to a deployment whose key is too short is answered HTTP 500, and the store, which had no
  record for the identifier, now holds \<open>used\<close> for it.
\<close>

theorem signing_failure_leaves_used_record:
  "signContent (stub_viem known_receipts) ''2026-01-01T00:00:00.000Z'' ''hello''
       ''https://example.com'' (BASIS_PRIVATE_KEY (bad_key_env empty_store))
     = Inl (KeyBadLength 5)
   \<and> kv_get empty_store tx_a = None
   \<and> fst (verify_url (stub_viem known_receipts) stub_performFetch ''2026-01-01T00:00:00.000Z''
            no_faults (bad_key_env empty_store) paid_request)
     = Json 500 \<lparr>body_error = ''Internal Server Error'',
          body_message = ''An unexpected error occurred while processing your request'',
          body_payment_context = None\<rparr>
   \<and> map_option (\<lambda>kv. kv_get kv tx_a)
        (BASIS_KV (fst (snd (verify_url (stub_viem known_receipts) stub_performFetch
            ''2026-01-01T00:00:00.000Z'' no_faults (bad_key_env empty_store) paid_request))))
     = Some (Some ''used'')"
proof -
  have key: "BASIS_PRIVATE_KEY (bad_key_env empty_store) = Some short_key"
    by (simp add: bad_key_env_def)
  have absent: "kv_get empty_store tx_a = None"
    by (simp add: kv_get_def empty_store_def)
  have handler: "verify_url_handler (stub_viem known_receipts) stub_performFetch
        ''2026-01-01T00:00:00.000Z'' ((bad_key_env empty_store)\<lparr>BASIS_KV := kvo\<rparr>) ''https://example.com''
      = Json 500 \<lparr>body_error = ''Internal Server Error'',
          body_message = ''An unexpected error occurred while processing your request'',
          body_payment_context = None\<rparr>" for kvo
    by (simp add: verify_url_handler_def Let_def stub_performFetch_def truthy_def orElse_def
          bad_key_env_def sign_short_key short_key_nonempty)
  have route: "verify_url (stub_viem known_receipts) stub_performFetch ''2026-01-01T00:00:00.000Z''
            no_faults (bad_key_env empty_store) paid_request
     = (Json 500 \<lparr>body_error = ''Internal Server Error'',
          body_message = ''An unexpected error occurred while processing your request'',
          body_payment_context = None\<rparr>,
        (bad_key_env empty_store)\<lparr>BASIS_KV :=
           Some (empty_store\<lparr>entries := (entries empty_store)(tx_a \<mapsto> (''used'', 86400))\<rparr>)\<rparr>,
        [KvGet tx_a, KvPut tx_a ''pending'' 300, GetTransactionReceipt tx_a,
         KvPut tx_a ''used'' 86400])"
    by (simp add: verify_url_def x402_paid_request handler) (simp add: paid_request_def handler)
  have thrown: "signContent (stub_viem known_receipts) ''2026-01-01T00:00:00.000Z'' ''hello''
       ''https://example.com'' (BASIS_PRIVATE_KEY (bad_key_env empty_store))
     = Inl (KeyBadLength 5)"
    by (simp only: key sign_short_key)
  have "clock empty_store = 0"
    by (simp add: empty_store_def)
  then have after: "map_option (\<lambda>kv. kv_get kv tx_a)
        (BASIS_KV (fst (snd (verify_url (stub_viem known_receipts) stub_performFetch
            ''2026-01-01T00:00:00.000Z'' no_faults (bad_key_env empty_store) paid_request))))
     = Some (Some ''used'')"
    by (simp add: route kv_get_def)
  from thrown absent after show ?thesis
    by (simp add: route)
qed

text \<open>
  C9, amended. When signing fails in the fetch route (the gate has admitted the request,
  the body is valid, the page was fetched), the request is answered HTTP 500
  \<open>Internal Server Error\<close>, and the signer and the handler perform no store operation of
  their own: the environment and the effects are exactly those of the gate. The gate has
  by then committed the payment: the record of the request's identifier, absent before,
  is \<open>used\<close> with 86400 seconds to live.
\<close>

theorem signing_failure_after_gate_commit:
  assumes "x402 lib faults e (authorization req) = (CallNext ctx, e1, fx)"
    and "json_url req = Some url"
    and "fr_status (performFetch url) = 200"
    and "truthy (fr_content (performFetch url))"
    and "truthy (BASIS_PRIVATE_KEY e)"
    and "signContent lib now (orElse (fr_content (performFetch url)) []) url (BASIS_PRIVATE_KEY e)
           = Inl thrown"
  shows "verify_url lib performFetch now faults e req
           = (Json 500 \<lparr>body_error = ''Internal Server Error'',
                body_message = ''An unexpected error occurred while processing your request'',
                body_payment_context = None\<rparr>, e1, fx)
       \<and> (\<exists>txHash kv. authorization req = Some txHash \<and> BASIS_KV e = Some kv
             \<and> kv_get kv txHash = None
             \<and> BASIS_KV e1 = Some (kv\<lparr>entries := (entries kv)(txHash \<mapsto> (''used'', clock kv + 86400))\<rparr>)
             \<and> fx = [KvGet txHash, KvPut txHash ''pending'' 300, GetTransactionReceipt txHash,
                     KvPut txHash ''used'' 86400])"
proof -
  from x402_admitted [OF assms(1)]
  obtain txHash kv where adm: "authorization req = Some txHash" "BASIS_KV e = Some kv"
      "kv_get kv txHash = None"
      "e1 = e\<lparr>BASIS_KV := Some (kv\<lparr>entries := (entries kv)(txHash \<mapsto> (''used'', clock kv + 86400))\<rparr>)\<rparr>"
      "fx = [KvGet txHash, KvPut txHash ''pending'' 300, GetTransactionReceipt txHash,
             KvPut txHash ''used'' 86400]"
    by blast
  from adm(4) have key: "BASIS_PRIVATE_KEY e1 = BASIS_PRIVATE_KEY e"
    by simp
  have "verify_url_handler lib performFetch now e1 url
          = Json 500 \<lparr>body_error = ''Internal Server Error'',
                body_message = ''An unexpected error occurred while processing your request'',
                body_payment_context = None\<rparr>"
    using assms(3-6) by (simp add: verify_url_handler_def Let_def key)
  with assms(1,2) have "verify_url lib performFetch now faults e req
           = (Json 500 \<lparr>body_error = ''Internal Server Error'',
                body_message = ''An unexpected error occurred while processing your request'',
                body_payment_context = None\<rparr>, e1, fx)"
    by (simp add: verify_url_def)
  moreover from adm(4) have "BASIS_KV e1
      = Some (kv\<lparr>entries := (entries kv)(txHash \<mapsto> (''used'', clock kv + 86400))\<rparr>)"
    by simp
  ultimately show ?thesis
    using adm(1,2,3,5) by blast
qed

theorem signing_failure_after_gate_commit_witness:
  "verify_url (stub_viem known_receipts) stub_performFetch ''2026-01-01T00:00:00.000Z''
        no_faults (bad_key_env empty_store) paid_request
     = (Json 500 \<lparr>body_error = ''Internal Server Error'',
          body_message = ''An unexpected error occurred while processing your request'',
          body_payment_context = None\<rparr>,
        (bad_key_env empty_store)\<lparr>BASIS_KV :=
           Some (empty_store\<lparr>entries := (entries empty_store)(tx_a \<mapsto> (''used'', 86400))\<rparr>)\<rparr>,
        [KvGet tx_a, KvPut tx_a ''pending'' 300, GetTransactionReceipt tx_a,
         KvPut tx_a ''used'' 86400])"
proof -
  have body: "json_url paid_request = Some ''https://example.com''"
    by (simp add: paid_request_def)
  have fetched: "fr_status (stub_performFetch ''https://example.com'') = 200"
    "truthy (fr_content (stub_performFetch ''https://example.com''))"
    "orElse (fr_content (stub_performFetch ''https://example.com'')) [] = ''hello''"
    by (simp_all add: stub_performFetch_def truthy_def orElse_def)
  have key: "truthy (BASIS_PRIVATE_KEY (bad_key_env empty_store))"
    "BASIS_PRIVATE_KEY (bad_key_env empty_store) = Some short_key"
    by (simp_all add: bad_key_env_def truthy_def short_key_nonempty)
  have thrown: "signContent (stub_viem known_receipts) ''2026-01-01T00:00:00.000Z''
      (orElse (fr_content (stub_performFetch ''https://example.com'')) []) ''https://example.com''
      (BASIS_PRIVATE_KEY (bad_key_env empty_store)) = Inl (KeyBadLength 5)"
    by (simp only: fetched(3) key(2) sign_short_key)
  from signing_failure_after_gate_commit
    [where performFetch = stub_performFetch and url = "''https://example.com''",
      OF x402_paid_request body fetched(1,2) key(1) thrown]
  show ?thesis
    by blast
qed


end
